theory Spec2Isabelle
  imports Complex_Main
begin

section \<open>Numbers\<close>

text \<open>
  A TypeScript \<open>number\<close> is modelled as a real extended by the three special values that
  the arithmetic of the program can produce: both infinities and NaN. Finite values are
  exact reals, so rounding, overflow and the sign of zero are outside the model; what is
  inside is everything the geometry depends on: division by zero gives an infinity or
  NaN, NaN is contagious, and every ordered comparison with NaN is false.
\<close>

datatype number = Fin real | PInf | NInf | NaN

instantiation number :: "{uminus, plus, minus, times, inverse, ord}"
begin

fun uminus_number :: "number \<Rightarrow> number" where
  "uminus_number (Fin a) = Fin (- a)"
| "uminus_number PInf = NInf"
| "uminus_number NInf = PInf"
| "uminus_number NaN = NaN"

fun plus_number :: "number \<Rightarrow> number \<Rightarrow> number" where
  "plus_number (Fin a) (Fin b) = Fin (a + b)"
| "plus_number (Fin a) PInf = PInf"
| "plus_number (Fin a) NInf = NInf"
| "plus_number PInf (Fin b) = PInf"
| "plus_number NInf (Fin b) = NInf"
| "plus_number PInf PInf = PInf"
| "plus_number NInf NInf = NInf"
| "plus_number PInf NInf = NaN"
| "plus_number NInf PInf = NaN"
| "plus_number NaN b = NaN"
| "plus_number a NaN = NaN"

definition minus_number :: "number \<Rightarrow> number \<Rightarrow> number" where
  "minus_number a b = a + (- b)"

fun times_number :: "number \<Rightarrow> number \<Rightarrow> number" where
  "times_number (Fin a) (Fin b) = Fin (a * b)"
| "times_number (Fin a) PInf = (if a = 0 then NaN else if 0 < a then PInf else NInf)"
| "times_number (Fin a) NInf = (if a = 0 then NaN else if 0 < a then NInf else PInf)"
| "times_number PInf (Fin b) = (if b = 0 then NaN else if 0 < b then PInf else NInf)"
| "times_number NInf (Fin b) = (if b = 0 then NaN else if 0 < b then NInf else PInf)"
| "times_number PInf PInf = PInf"
| "times_number NInf NInf = PInf"
| "times_number PInf NInf = NInf"
| "times_number NInf PInf = NInf"
| "times_number NaN b = NaN"
| "times_number a NaN = NaN"

fun divide_number :: "number \<Rightarrow> number \<Rightarrow> number" where
  "divide_number (Fin a) (Fin b) =
     (if b = 0 then (if a = 0 then NaN else if 0 < a then PInf else NInf)
      else Fin (a / b))"
| "divide_number (Fin a) PInf = Fin 0"
| "divide_number (Fin a) NInf = Fin 0"
| "divide_number PInf (Fin b) = (if 0 \<le> b then PInf else NInf)"
| "divide_number NInf (Fin b) = (if 0 \<le> b then NInf else PInf)"
| "divide_number PInf PInf = NaN"
| "divide_number NInf NInf = NaN"
| "divide_number PInf NInf = NaN"
| "divide_number NInf PInf = NaN"
| "divide_number NaN b = NaN"
| "divide_number a NaN = NaN"

definition inverse_number :: "number \<Rightarrow> number" where
  "inverse_number a = Fin 1 div a"

fun less_number :: "number \<Rightarrow> number \<Rightarrow> bool" where
  "less_number (Fin a) (Fin b) = (a < b)"
| "less_number (Fin a) PInf = True"
| "less_number NInf (Fin b) = True"
| "less_number NInf PInf = True"
| "less_number NaN b = False"
| "less_number a NaN = False"
| "less_number a NInf = False"
| "less_number PInf b = False"

fun less_eq_number :: "number \<Rightarrow> number \<Rightarrow> bool" where
  "less_eq_number (Fin a) (Fin b) = (a \<le> b)"
| "less_eq_number NaN b = False"
| "less_eq_number a NaN = False"
| "less_eq_number a PInf = True"
| "less_eq_number NInf b = True"
| "less_eq_number a NInf = False"
| "less_eq_number PInf b = False"

instance ..

end

text \<open>\<open>Math.PI\<close>, \<open>Math.cos\<close> and \<open>Math.sin\<close>; the last two give NaN outside the finite numbers.\<close>

definition Math_PI :: number where
  "Math_PI = Fin pi"

fun Math_cos :: "number \<Rightarrow> number" where
  "Math_cos (Fin a) = Fin (cos a)"
| "Math_cos PInf = NaN"
| "Math_cos NInf = NaN"
| "Math_cos NaN = NaN"

fun Math_sin :: "number \<Rightarrow> number" where
  "Math_sin (Fin a) = Fin (sin a)"
| "Math_sin PInf = NaN"
| "Math_sin NInf = NaN"
| "Math_sin NaN = NaN"

section \<open>Points, lines and transforms\<close>

datatype Point = Point (pt_x: number) (pt_y: number)

definition Point_zero :: Point where
  "Point_zero = Point (Fin 0) (Fin 0)"

definition Point_unit :: Point where
  "Point_unit = Point (Fin 1) (Fin 1)"

datatype Line = Line (point1: Point) (point2: Point)

datatype Transform = Transform (position: Point) (rotation: number) (scale: Point)

definition Transform_default :: Transform where
  "Transform_default = Transform Point_zero (Fin 0) Point_unit"

definition Transform_zero :: Transform where
  "Transform_zero = Transform Point_zero (Fin 0) Point_zero"

text \<open>\<open>Transform.add\<close>: a new transform is built from the fields of both operands.\<close>

definition add :: "Transform \<Rightarrow> Transform \<Rightarrow> Transform" where
  "add this other =
     Transform
       (Point (pt_x (position this) + pt_x (position other))
              (pt_y (position this) + pt_y (position other)))
       (rotation this + rotation other)
       (Point (pt_x (scale this) * pt_x (scale other))
              (pt_y (scale this) * pt_y (scale other)))"

text \<open>
  \<open>Point.rotateAround\<close> overwrites the coordinates of the receiver; the model returns the
  rotated point.
\<close>

definition rotateAround :: "Point \<Rightarrow> Point \<Rightarrow> number \<Rightarrow> Point" where
  "rotateAround this center angle =
     (let radians = (Math_PI / Fin 180) * angle;
          cosv = Math_cos radians;
          sinv = Math_sin radians;
          nx = cosv * (pt_x this - pt_x center) + sinv * (pt_y this - pt_y center) + pt_x center;
          ny = cosv * (pt_y this - pt_y center) - sinv * (pt_x this - pt_x center) + pt_y center
      in Point nx ny)"

section \<open>Transforms as objects\<close>

text \<open>
  Points and transforms are objects, and a transform refers to the points of its position
  and of its scale. To say what a call does to the objects that exist already, this
  section embeds \<open>Transform.add\<close> a second time, over a store: a reference is a number,
  the store maps the references in use to the fields of their objects, and \<open>new\<close> takes
  the next unused reference. Reading a field through a reference that is not in the store
  has no counterpart in the program; it gives \<open>TypeError\<close> here.
\<close>

datatype error = TypeError

type_synonym ref = nat

record Store =
  point_at :: "ref \<rightharpoonup> Point"
  transform_at :: "ref \<rightharpoonup> ref \<times> number \<times> ref"
  next_ref :: ref

definition new_Point :: "Store \<Rightarrow> Point \<Rightarrow> ref \<times> Store" where
  "new_Point st p =
     (next_ref st,
      st\<lparr>point_at := (point_at st)(next_ref st \<mapsto> p), next_ref := Suc (next_ref st)\<rparr>)"

definition new_Transform :: "Store \<Rightarrow> ref \<times> number \<times> ref \<Rightarrow> ref \<times> Store" where
  "new_Transform st t =
     (next_ref st,
      st\<lparr>transform_at := (transform_at st)(next_ref st \<mapsto> t), next_ref := Suc (next_ref st)\<rparr>)"

text \<open>
  \<open>Transform.add\<close> on references: the arguments of \<open>new Transform\<close> are evaluated from
  left to right, so the point of the position is made first, then the rotation is added,
  then the point of the scale is made.
\<close>

definition add_in_store :: "Store \<Rightarrow> ref \<Rightarrow> ref \<Rightarrow> error + ref \<times> Store" where
  "add_in_store st this other =
     (case (transform_at st this, transform_at st other) of
        (Some (this_position, this_rotation, this_scale),
         Some (other_position, other_rotation, other_scale)) \<Rightarrow>
          (case (point_at st this_position, point_at st other_position,
                 point_at st this_scale, point_at st other_scale) of
             (Some tp, Some op, Some ts, Some os) \<Rightarrow>
               (let (p, st1) = new_Point st (Point (pt_x tp + pt_x op) (pt_y tp + pt_y op));
                    r = this_rotation + other_rotation;
                    (s, st2) = new_Point st1 (Point (pt_x ts * pt_x os) (pt_y ts * pt_y os));
                    (t, st3) = new_Transform st2 (p, r, s)
                in Inr (t, st3))
           | _ \<Rightarrow> Inl TypeError)
      | _ \<Rightarrow> Inl TypeError)"

text \<open>The transform that a reference stands for, with the points it refers to.\<close>

definition read_Transform :: "Store \<Rightarrow> ref \<Rightarrow> Transform option" where
  "read_Transform st r =
     (case transform_at st r of
        None \<Rightarrow> None
      | Some (p, rot, s) \<Rightarrow>
          (case (point_at st p, point_at st s) of
             (Some pos, Some sc) \<Rightarrow> Some (Transform pos rot sc)
           | _ \<Rightarrow> None))"

section \<open>Segment intersection\<close>

definition line_intersects :: "Line \<Rightarrow> Line \<Rightarrow> bool" where
  "line_intersects line1 line2 =
     (let s1_x = pt_x (point2 line1) - pt_x (point1 line1);
          s1_y = pt_y (point2 line1) - pt_y (point1 line1);
          s2_x = pt_x (point2 line2) - pt_x (point1 line2);
          s2_y = pt_y (point2 line2) - pt_y (point1 line2);
          s = (- s1_y * (pt_x (point1 line1) - pt_x (point1 line2)) +
                 s1_x * (pt_y (point1 line1) - pt_y (point1 line2))) /
              (- s2_x * s1_y + s1_x * s2_y);
          t = (s2_x * (pt_y (point1 line1) - pt_y (point1 line2)) -
                 s2_y * (pt_x (point1 line1) - pt_x (point1 line2))) /
              (- s2_x * s1_y + s1_x * s2_y)
      in Fin 0 \<le> s \<and> s \<le> Fin 1 \<and> Fin 0 \<le> t \<and> t \<le> Fin 1)"

subsection \<open>Segment intersection on doubles\<close>

text \<open>
  Whether two segments on one line have a denominator of exactly zero is decided by the
  rounding of the coordinate differences. For this question \<open>line_intersects\<close> is embedded
  a second time, over IEEE 754 binary64 arithmetic: every operation gives the exact result
  rounded to the nearest double, ties to the even significand, with gradual underflow and
  with overflow to an infinity. The sign of zero is not modelled; it could matter only in a
  division by zero, whose quotient fails the range check with either sign.

  \<open>bexp\<close> is the binary exponent, found by halving or doubling at most 1100 times; a
  double needs fewer steps, and beyond them the exponent is clamped or the value overflows.
\<close>

definition round_even :: "real \<Rightarrow> int" where
  "round_even x =
     (let f = \<lfloor>x\<rfloor>
      in if x - of_int f < 1 / 2 then f
         else if 1 / 2 < x - of_int f then f + 1
         else if even f then f else f + 1)"

definition pow2 :: "int \<Rightarrow> real" where
  "pow2 k = (if 0 \<le> k then 2 ^ nat k else 1 / 2 ^ nat (- k))"

fun bexp_up :: "nat \<Rightarrow> real \<Rightarrow> int" where
  "bexp_up 0 x = 0"
| "bexp_up (Suc n) x = (if x < 2 then 0 else 1 + bexp_up n (x / 2))"

fun bexp_down :: "nat \<Rightarrow> real \<Rightarrow> int" where
  "bexp_down 0 x = 0"
| "bexp_down (Suc n) x = (if 1 \<le> x then 0 else bexp_down n (x * 2) - 1)"

definition bexp :: "real \<Rightarrow> int" where
  "bexp x = (if 1 \<le> \<bar>x\<bar> then bexp_up 1100 \<bar>x\<bar> else bexp_down 1100 \<bar>x\<bar>)"

text \<open>Rounding to 53 significant bits, the exponent not going below that of the subnormals.\<close>

definition fl :: "real \<Rightarrow> real" where
  "fl x = (let u = pow2 (max (bexp x) (- 1022) - 52) in of_int (round_even (x / u)) * u)"

definition max_double :: real where
  "max_double = (2 ^ 53 - 1) * 2 ^ 971"

fun rnd :: "number \<Rightarrow> number" where
  "rnd (Fin x) =
     (let y = fl x
      in if max_double < y then PInf else if y < - max_double then NInf else Fin y)"
| "rnd PInf = PInf"
| "rnd NInf = NInf"
| "rnd NaN = NaN"

definition dadd :: "number \<Rightarrow> number \<Rightarrow> number" where
  "dadd a b = rnd (a + b)"

definition dsub :: "number \<Rightarrow> number \<Rightarrow> number" where
  "dsub a b = rnd (a - b)"

definition dmul :: "number \<Rightarrow> number \<Rightarrow> number" where
  "dmul a b = rnd (a * b)"

definition ddiv :: "number \<Rightarrow> number \<Rightarrow> number" where
  "ddiv a b = rnd (a / b)"

definition line_intersects_double :: "Line \<Rightarrow> Line \<Rightarrow> bool" where
  "line_intersects_double line1 line2 =
     (let s1_x = dsub (pt_x (point2 line1)) (pt_x (point1 line1));
          s1_y = dsub (pt_y (point2 line1)) (pt_y (point1 line1));
          s2_x = dsub (pt_x (point2 line2)) (pt_x (point1 line2));
          s2_y = dsub (pt_y (point2 line2)) (pt_y (point1 line2));
          s = ddiv (dadd (dmul (- s1_y) (dsub (pt_x (point1 line1)) (pt_x (point1 line2))))
                         (dmul s1_x (dsub (pt_y (point1 line1)) (pt_y (point1 line2)))))
                   (dadd (dmul (- s2_x) s1_y) (dmul s1_x s2_y));
          t = ddiv (dsub (dmul s2_x (dsub (pt_y (point1 line1)) (pt_y (point1 line2))))
                         (dmul s2_y (dsub (pt_x (point1 line1)) (pt_x (point1 line2)))))
                   (dadd (dmul (- s2_x) s1_y) (dmul s1_x s2_y))
      in Fin 0 \<le> s \<and> s \<le> Fin 1 \<and> Fin 0 \<le> t \<and> t \<le> Fin 1)"

section \<open>Shapes\<close>

text \<open>
  The shape tree. A node carries the fields of \<open>Shape\<close> and \<open>NGon\<close>; every concrete class
  of the program extends \<open>NGon\<close>, so the \<open>instanceof NGon\<close> guard of \<open>isIntersecting\<close>
  never fails and has no branch here. The \<open>parent\<close> back-reference is the position in the
  tree: a function that reads \<open>this.parent\<close> takes the parent as an argument, \<open>None\<close> for
  \<open>null\<close>. The field \<open>oid\<close> is the identity of the object, which \<open>!==\<close> compares.
\<close>

datatype ShapeType = Canvas | Rectangle | Circle | Triangle

datatype Shape =
  Shape (oid: nat) (shape_type: ShapeType) (transform: Transform) (children: "Shape list")
        (selected: bool) (points: "Point list") (drawPoints: "Point list")

definition addChild :: "Shape \<Rightarrow> Shape \<Rightarrow> Shape" where
  "addChild this child =
     Shape (oid this) (shape_type this) (transform this) (children this @ [child])
           (selected this) (points this) (drawPoints this)"

definition removeChild :: "Shape \<Rightarrow> Shape \<Rightarrow> Shape" where
  "removeChild this child =
     Shape (oid this) (shape_type this) (transform this)
           (filter (\<lambda>node. oid node \<noteq> oid child) (children this))
           (selected this) (points this) (drawPoints this)"

definition getPoints :: "Shape \<Rightarrow> Point list" where
  "getPoints this = drawPoints this"

subsection \<open>Constructors\<close>

definition Rectangle_points :: "number \<Rightarrow> number \<Rightarrow> Point list" where
  "Rectangle_points width height =
     (let hWidth = width / Fin 2;
          hHeight = height / Fin 2
      in [Point (- hWidth) hHeight, Point hWidth hHeight,
          Point hWidth (- hHeight), Point (- hWidth) (- hHeight)])"

definition Rectangle_new :: "nat \<Rightarrow> number \<Rightarrow> number \<Rightarrow> Transform \<Rightarrow> Shape" where
  "Rectangle_new i width height tr =
     Shape i Rectangle tr [] False (Rectangle_points width height) []"

definition Canvas_new :: "nat \<Rightarrow> number \<Rightarrow> number \<Rightarrow> Transform \<Rightarrow> Shape" where
  "Canvas_new i width height tr =
     Shape i Canvas tr [] False (Rectangle_points width height) []"

text \<open>The loop of the \<open>Circle\<close> constructor, with \<open>n\<close> iterations still to run.\<close>

fun Circle_loop :: "number \<Rightarrow> number \<Rightarrow> number \<Rightarrow> nat \<Rightarrow> Point list" where
  "Circle_loop radius rotationAngle angle 0 = []"
| "Circle_loop radius rotationAngle angle (Suc n) =
     Point (Math_cos angle * radius) (Math_sin angle * radius)
       # Circle_loop radius rotationAngle (angle + rotationAngle) n"

definition pointsAmount :: nat where
  "pointsAmount = 100"

definition Circle_new :: "nat \<Rightarrow> number \<Rightarrow> Transform \<Rightarrow> Shape" where
  "Circle_new i radius tr =
     (let rotationAngle = (Math_PI * Fin 2) / Fin (real pointsAmount)
      in Shape i Circle tr [] False (Circle_loop radius rotationAngle (Fin 0) pointsAmount) [])"

definition Triangle_new :: "nat \<Rightarrow> Point \<Rightarrow> Point \<Rightarrow> Point \<Rightarrow> Transform \<Rightarrow> Shape" where
  "Triangle_new i p1 p2 p3 tr =
     Shape i Triangle tr [] False [p1, p2, p3] []"

subsection \<open>Point in polygon\<close>

text \<open>
  The loop of \<open>isPointInside\<close> with its three variables \<open>i\<close>, \<open>j\<close> and \<open>inside\<close>. Both
  reads stay in range: the body runs only for \<open>i\<close> below the length, and \<open>j\<close> is the
  previous \<open>i\<close>, or the last index in the first round.
\<close>

function isPointInside_loop ::
  "Point list \<Rightarrow> number \<Rightarrow> number \<Rightarrow> nat \<Rightarrow> nat \<Rightarrow> bool \<Rightarrow> bool" where
  "isPointInside_loop dps x y i j inside =
     (if i < length dps then
        (let xi = pt_x (dps ! i); yi = pt_y (dps ! i);
             xj = pt_x (dps ! j); yj = pt_y (dps ! j);
             intersect = ((yi > y) \<noteq> (yj > y) \<and> x < ((xj - xi) * (y - yi)) / (yj - yi) + xi)
         in isPointInside_loop dps x y (i + 1) i (if intersect then \<not> inside else inside))
      else inside)"
  by pat_completeness auto

termination
  by (relation "measure (\<lambda>(dps, x, y, i, j, inside). length dps - i)") auto

definition isPointInside :: "Shape \<Rightarrow> Point \<Rightarrow> bool" where
  "isPointInside this point =
     isPointInside_loop (drawPoints this) (pt_x point) (pt_y point)
       0 (length (drawPoints this) - 1) False"

subsection \<open>Polygon intersection\<close>

text \<open>The edges: from each point to the next, and from the last back to the first.\<close>

definition lines_of :: "Point list \<Rightarrow> Line list" where
  "lines_of dps =
     map (\<lambda>i. Line (dps ! i) (dps ! ((i + 1) mod length dps))) [0..<length dps]"

fun ngonLines_loop :: "Line \<Rightarrow> Line list \<Rightarrow> bool" where
  "ngonLines_loop myLine [] = False"
| "ngonLines_loop myLine (ngonLine # rest) =
     (if line_intersects myLine ngonLine then True else ngonLines_loop myLine rest)"

fun myLines_loop :: "Line list \<Rightarrow> Line list \<Rightarrow> bool" where
  "myLines_loop [] ngonLines = False"
| "myLines_loop (myLine # rest) ngonLines =
     (if ngonLines_loop myLine ngonLines then True else myLines_loop rest ngonLines)"

definition isIntersecting :: "Shape \<Rightarrow> Shape \<Rightarrow> bool" where
  "isIntersecting this ngon =
     myLines_loop (lines_of (drawPoints this)) (lines_of (drawPoints ngon))"

subsection \<open>Stability\<close>

text \<open>The three kinds of loop in \<open>isStable\<close>, each leaving at the first failure.\<close>

fun parent_loop :: "Shape \<Rightarrow> Point list \<Rightarrow> bool" where
  "parent_loop parent [] = True"
| "parent_loop parent (point # rest) =
     (if \<not> isPointInside parent point then False else parent_loop parent rest)"

fun outside_loop :: "Shape \<Rightarrow> Point list \<Rightarrow> bool" where
  "outside_loop shape [] = True"
| "outside_loop shape (point # rest) =
     (if isPointInside shape point then False else outside_loop shape rest)"

fun sibling_loop :: "Shape \<Rightarrow> Shape list \<Rightarrow> bool" where
  "sibling_loop this [] = True"
| "sibling_loop this (sibling # rest) =
     (if \<not> outside_loop sibling (drawPoints this) then False
      else if \<not> outside_loop this (getPoints sibling) then False
      else if isIntersecting this sibling then False
      else sibling_loop this rest)"

text \<open>
  \<open>Canvas.isStable\<close> overrides \<open>NGon.isStable\<close>. For any other node a \<open>null\<close> parent is
  dereferenced, in the first loop or at \<open>this.parent.children\<close>.
\<close>

definition isStable :: "Shape option \<Rightarrow> Shape \<Rightarrow> error + bool" where
  "isStable parent this =
     (if shape_type this = Canvas then Inr True
      else case parent of
             None \<Rightarrow> Inl TypeError
           | Some p \<Rightarrow>
               if \<not> parent_loop p (drawPoints this) then Inr False
               else Inr (sibling_loop this
                           (filter (\<lambda>node. oid node \<noteq> oid this) (children p))))"

subsection \<open>Resolving the draw points\<close>

definition getCenter_of :: "Point list \<Rightarrow> Point" where
  "getCenter_of dps =
     foldl (\<lambda>prev curr. Point (pt_x prev + pt_x curr / Fin (real (length dps)))
                               (pt_y prev + pt_y curr / Fin (real (length dps))))
           (Point (Fin 0) (Fin 0)) dps"


definition absoluteTransform_of :: "Point \<Rightarrow> Transform \<Rightarrow> Transform \<Rightarrow> Transform" where
  "absoluteTransform_of parentCenter parentTransform tr =
     Transform
       (Point (pt_x parentCenter + pt_x (position tr)) (pt_y parentCenter + pt_y (position tr)))
       (rotation parentTransform + rotation tr)
       (Point (pt_x (scale parentTransform) * pt_x (scale tr))
              (pt_y (scale parentTransform) * pt_y (scale tr)))"

definition drawPoint_of :: "Point \<Rightarrow> Transform \<Rightarrow> Transform \<Rightarrow> Point \<Rightarrow> Point" where
  "drawPoint_of parentCenter parentTransform tr point =
     (let absoluteTransform = absoluteTransform_of parentCenter parentTransform tr;
          drawPoint0 =
            Point (pt_x parentCenter + pt_x (position tr) + pt_x point * pt_x (scale absoluteTransform))
                  (pt_y parentCenter + pt_y (position tr) + pt_y point * pt_y (scale absoluteTransform));
          drawPoint1 =
            rotateAround drawPoint0
              (Point (pt_x (position absoluteTransform)) (pt_y (position absoluteTransform)))
              (rotation tr)
      in rotateAround drawPoint1 parentCenter (rotation parentTransform))"

text \<open>
  \<open>NGon.draw\<close>, as far as it changes the tree: the rendering context and the stroke colour
  are not modelled. The two ways it can raise are: the call of \<open>isStable\<close>, which raises
  exactly for a node other than the canvas without a parent (\<open>has_parent\<close> says whether
  \<open>this.parent\<close> is an object), and the read of \<open>this.drawPoints[0].x\<close> on an empty list.
  The optional arguments are \<open>None\<close> for \<open>null\<close>.
\<close>

definition parentCenter_or_default :: "Point option \<Rightarrow> Point" where
  "parentCenter_or_default parentCenter =
     (case parentCenter of None \<Rightarrow> Point (Fin 0) (Fin 0) | Some c \<Rightarrow> c)"

definition parentTransform_or_default :: "Transform option \<Rightarrow> Transform" where
  "parentTransform_or_default parentTransform =
     (case parentTransform of None \<Rightarrow> Transform Point_zero (Fin 0) Point_unit | Some t \<Rightarrow> t)"

fun draw :: "bool \<Rightarrow> Point option \<Rightarrow> Transform option \<Rightarrow> Shape \<Rightarrow> error + Shape"
and draw_children :: "Point \<Rightarrow> Transform \<Rightarrow> Shape list \<Rightarrow> error + Shape list" where
  "draw has_parent parentCenter0 parentTransform0 (Shape i ty tr ch sel pts dps) =
     (let parentCenter = parentCenter_or_default parentCenter0;
          parentTransform = parentTransform_or_default parentTransform0;
          absoluteTransform = absoluteTransform_of parentCenter parentTransform tr;
          drawPoints' = map (drawPoint_of parentCenter parentTransform tr) pts
      in if ty \<noteq> Canvas \<and> \<not> has_parent then Inl TypeError
         else if drawPoints' = [] then Inl TypeError
         else case draw_children (getCenter_of drawPoints') absoluteTransform ch of
                Inl e \<Rightarrow> Inl e
              | Inr ch' \<Rightarrow> Inr (Shape i ty tr ch' sel pts drawPoints'))"
| "draw_children center absoluteTransform [] = Inr []"
| "draw_children center absoluteTransform (child # rest) =
     (case draw True (Some center) (Some absoluteTransform) child of
        Inl e \<Rightarrow> Inl e
      | Inr child' \<Rightarrow>
          (case draw_children center absoluteTransform rest of
             Inl e \<Rightarrow> Inl e
           | Inr rest' \<Rightarrow> Inr (child' # rest')))"

text \<open>\<open>DrawingCanvas.render\<close>: the canvas is the root and has no parent.\<close>

definition render :: "Shape \<Rightarrow> error + Shape" where
  "render canvas = draw False (Some Point_zero) (Some Transform_default) canvas"

section \<open>The controller\<close>

text \<open>
  A reference to a node of the tree is the path of child indices that leads to it from the
  canvas. \<open>selectedNode\<close> is such a reference; the constructor selects the canvas, and
  no later assignment makes it \<open>null\<close>. A path that leads to no node has no counterpart in
  the program; reading through it gives \<open>TypeError\<close> here.
\<close>

fun get_node :: "nat list \<Rightarrow> Shape \<Rightarrow> Shape option" where
  "get_node [] s = Some s"
| "get_node (k # ks) s =
     (if k < length (children s) then get_node ks (children s ! k) else None)"

fun update_node :: "nat list \<Rightarrow> (Shape \<Rightarrow> Shape) \<Rightarrow> Shape \<Rightarrow> Shape" where
  "update_node [] f s = f s"
| "update_node (k # ks) f s =
     (if k < length (children s)
      then Shape (oid s) (shape_type s) (transform s)
             ((children s)[k := update_node ks f (children s ! k)])
             (selected s) (points s) (drawPoints s)
      else s)"

definition parent_of :: "nat list \<Rightarrow> Shape \<Rightarrow> Shape option" where
  "parent_of path t = (if path = [] then None else get_node (butlast path) t)"

text \<open>The assignment \<open>node.transform = t\<close>.\<close>

definition assign_transform :: "Transform \<Rightarrow> Shape \<Rightarrow> Shape" where
  "assign_transform t s =
     Shape (oid s) (shape_type s) t (children s) (selected s) (points s) (drawPoints s)"

record Controller =
  canvas :: Shape
  selectedNode :: "nat list"
  previewNode :: "nat list option"
  isInEdit :: bool

text \<open>
  \<open>Controller.translate\<close>. Of \<open>this.render()\<close> only the drawing pass changes the state;
  the hierarchy view and the \<open>alert\<close> are not modelled.
\<close>

definition translate :: "Controller \<Rightarrow> Transform \<Rightarrow> error + (bool \<times> Controller)" where
  "translate this tr =
     (case get_node (selectedNode this) (canvas this) of
        None \<Rightarrow> Inl TypeError
      | Some node \<Rightarrow>
          if shape_type node = Canvas then Inr (False, this)
          else
            let prevTransform = transform node;
                canvas1 = update_node (selectedNode this)
                            (assign_transform (add (transform node) tr)) (canvas this)
            in case render canvas1 of
                 Inl e \<Rightarrow> Inl e
               | Inr canvas2 \<Rightarrow>
                   (case get_node (selectedNode this) canvas2 of
                      None \<Rightarrow> Inl TypeError
                    | Some node2 \<Rightarrow>
                        (case isStable (parent_of (selectedNode this) canvas2) node2 of
                           Inl e \<Rightarrow> Inl e
                         | Inr ok \<Rightarrow>
                             if ok
                             then Inr (True, this\<lparr>canvas := canvas2, isInEdit := False\<rparr>)
                             else Inr (False,
                                    this\<lparr>canvas := update_node (selectedNode this)
                                                      (assign_transform prevTransform) canvas2\<rparr>))))"

section \<open>Notions of the specification\<close>

text \<open>
  The definitions of this section are written from the words of the specification, to be
  compared with the functions above.
\<close>

subsection \<open>Vector arithmetic on points\<close>

definition Point_plus :: "Point \<Rightarrow> Point \<Rightarrow> Point" where
  "Point_plus p q = Point (pt_x p + pt_x q) (pt_y p + pt_y q)"

definition Point_times :: "Point \<Rightarrow> Point \<Rightarrow> Point" where
  "Point_times p q = Point (pt_x p * pt_x q) (pt_y p * pt_y q)"

subsection \<open>The cross-product parametrization of two segments\<close>

definition in_unit :: "number \<Rightarrow> bool" where
  "in_unit z = (Fin 0 \<le> z \<and> z \<le> Fin 1)"

definition direction :: "Line \<Rightarrow> Point" where
  "direction l = Point (pt_x (point2 l) - pt_x (point1 l)) (pt_y (point2 l) - pt_y (point1 l))"

definition cross :: "Point \<Rightarrow> Point \<Rightarrow> number" where
  "cross u v = pt_x u * pt_y v - pt_y u * pt_x v"

definition offset :: "Line \<Rightarrow> Line \<Rightarrow> Point" where
  "offset l1 l2 =
     Point (pt_x (point1 l1) - pt_x (point1 l2)) (pt_y (point1 l1) - pt_y (point1 l2))"

definition denominator :: "Line \<Rightarrow> Line \<Rightarrow> number" where
  "denominator l1 l2 = cross (direction l1) (direction l2)"

definition param_s :: "Line \<Rightarrow> Line \<Rightarrow> number" where
  "param_s l1 l2 = cross (direction l1) (offset l1 l2) / denominator l1 l2"

definition param_t :: "Line \<Rightarrow> Line \<Rightarrow> number" where
  "param_t l1 l2 = cross (direction l2) (offset l1 l2) / denominator l1 l2"

text \<open>The same parametrization computed in double arithmetic.\<close>

definition dcross :: "Point \<Rightarrow> Point \<Rightarrow> number" where
  "dcross u v = dsub (dmul (pt_x u) (pt_y v)) (dmul (pt_y u) (pt_x v))"

definition ddirection :: "Line \<Rightarrow> Point" where
  "ddirection l =
     Point (dsub (pt_x (point2 l)) (pt_x (point1 l))) (dsub (pt_y (point2 l)) (pt_y (point1 l)))"

definition doffset :: "Line \<Rightarrow> Line \<Rightarrow> Point" where
  "doffset l1 l2 =
     Point (dsub (pt_x (point1 l1)) (pt_x (point1 l2)))
           (dsub (pt_y (point1 l1)) (pt_y (point1 l2)))"

definition ddenominator :: "Line \<Rightarrow> Line \<Rightarrow> number" where
  "ddenominator l1 l2 = dcross (ddirection l1) (ddirection l2)"

definition dparam_s :: "Line \<Rightarrow> Line \<Rightarrow> number" where
  "dparam_s l1 l2 = ddiv (dcross (ddirection l1) (doffset l1 l2)) (ddenominator l1 l2)"

definition dparam_t :: "Line \<Rightarrow> Line \<Rightarrow> number" where
  "dparam_t l1 l2 = ddiv (dcross (ddirection l2) (doffset l1 l2)) (ddenominator l1 l2)"

subsection \<open>The crossing-number test\<close>

text \<open>The edge test for the edge from point \<open>j\<close> to point \<open>i\<close> and the query point \<open>(x, y)\<close>.\<close>

definition edge_test :: "Point \<Rightarrow> Point \<Rightarrow> number \<Rightarrow> number \<Rightarrow> bool" where
  "edge_test p_i p_j x y =
     ((pt_y p_i > y) \<noteq> (pt_y p_j > y) \<and>
      x < ((pt_x p_j - pt_x p_i) * (y - pt_y p_i)) / (pt_y p_j - pt_y p_i) + pt_x p_i)"

text \<open>The predecessor of index \<open>i\<close> on a closed loop of \<open>n\<close> points: \<open>i - 1\<close> modulo \<open>n\<close>.\<close>

definition pred_index :: "nat \<Rightarrow> nat \<Rightarrow> nat" where
  "pred_index n i = (i + n - 1) mod n"

definition toggle_step :: "Point list \<Rightarrow> number \<Rightarrow> number \<Rightarrow> bool \<Rightarrow> nat \<Rightarrow> bool" where
  "toggle_step ps x y inside i =
     (if edge_test (ps ! i) (ps ! pred_index (length ps) i) x y then \<not> inside else inside)"

definition crossing_number_inside :: "Point list \<Rightarrow> number \<Rightarrow> number \<Rightarrow> bool" where
  "crossing_number_inside ps x y = foldl (toggle_step ps x y) False [0..<length ps]"

definition crossed_edges :: "Point list \<Rightarrow> number \<Rightarrow> number \<Rightarrow> nat list" where
  "crossed_edges ps x y =
     filter (\<lambda>i. edge_test (ps ! i) (ps ! pred_index (length ps) i) x y) [0..<length ps]"

subsection \<open>Rotation about a centre\<close>

text \<open>
  The image of \<open>p\<close> under the rotation by \<open>angleDegrees\<close> about \<open>center\<close>: the offset of
  \<open>p\<close> from the centre is turned by the standard matrix with the sign of the sine
  inverted in the second row, and added to the centre.
\<close>

definition rotate_about :: "Point \<Rightarrow> number \<Rightarrow> Point \<Rightarrow> Point" where
  "rotate_about center angleDegrees p =
     (let theta = angleDegrees * (Math_PI / Fin 180);
          dx = pt_x p - pt_x center;
          dy = pt_y p - pt_y center
      in Point (pt_x center + (Math_cos theta * dx + Math_sin theta * dy))
               (pt_y center + (Math_cos theta * dy - Math_sin theta * dx)))"

subsection \<open>Absolute point resolution\<close>


subsection \<open>Stores\<close>

text \<open>
  In a store in order every reference in use lies below the next unused one. A store is
  unchanged in another when every object of the first has the same fields in the second.
\<close>

definition store_ok :: "Store \<Rightarrow> bool" where
  "store_ok st =
     (dom (point_at st) \<subseteq> {..<next_ref st} \<and> dom (transform_at st) \<subseteq> {..<next_ref st})"

definition unchanged :: "Store \<Rightarrow> Store \<Rightarrow> bool" where
  "unchanged st st' =
     ((\<forall>r\<in>dom (point_at st). point_at st' r = point_at st r) \<and>
      (\<forall>r\<in>dom (transform_at st). transform_at st' r = transform_at st r))"

subsection \<open>The tree without its cache, and its nodes\<close>

text \<open>
  \<open>forget\<close> empties the \<open>drawPoints\<close> of every node: what remains is the state that the
  draw points are computed from. \<open>nodes\<close> lists a tree in preorder, and \<open>nonempty_points\<close>
  says that every node has at least one local point.
\<close>

fun forget :: "Shape \<Rightarrow> Shape" where
  "forget (Shape i ty tr ch sel pts dps) = Shape i ty tr (map forget ch) sel pts []"

fun nodes :: "Shape \<Rightarrow> Shape list" where
  "nodes (Shape i ty tr ch sel pts dps) = Shape i ty tr ch sel pts dps # concat (map nodes ch)"

fun nonempty_points :: "Shape \<Rightarrow> bool" where
  "nonempty_points (Shape i ty tr ch sel pts dps) = (pts \<noteq> [] \<and> list_all nonempty_points ch)"

section \<open>Scenarios\<close>

text \<open>
  The canvas that the controller builds by default, 640 by 480 with its transform at the
  centre, and a rectangle of 100 by 50 added to it with the default transform.
\<close>

definition canvas_transform :: Transform where
  "canvas_transform = Transform (Point (Fin 320) (Fin 240)) (Fin 0) Point_unit"

definition scene_canvas :: Shape where
  "scene_canvas = Canvas_new 0 (Fin 640) (Fin 480) canvas_transform"

definition scene_rect :: Shape where
  "scene_rect = Rectangle_new 1 (Fin 100) (Fin 50) Transform_default"

definition scene :: Shape where
  "scene = addChild scene_canvas scene_rect"

text \<open>The same tree after a drawing pass.\<close>

definition rect_drawn :: Shape where
  "rect_drawn =
     Shape 1 Rectangle Transform_default [] False
       [Point (Fin (- 50)) (Fin 25), Point (Fin 50) (Fin 25),
        Point (Fin 50) (Fin (- 25)), Point (Fin (- 50)) (Fin (- 25))]
       [Point (Fin 270) (Fin 265), Point (Fin 370) (Fin 265),
        Point (Fin 370) (Fin 215), Point (Fin 270) (Fin 215)]"

definition canvas_with :: "Shape list \<Rightarrow> Shape" where
  "canvas_with ch =
     Shape 0 Canvas canvas_transform ch False
       [Point (Fin (- 320)) (Fin 240), Point (Fin 320) (Fin 240),
        Point (Fin 320) (Fin (- 240)), Point (Fin (- 320)) (Fin (- 240))]
       [Point (Fin 0) (Fin 480), Point (Fin 640) (Fin 480),
        Point (Fin 640) (Fin 0), Point (Fin 0) (Fin 0)]"

definition scene_drawn :: Shape where
  "scene_drawn = canvas_with [rect_drawn]"

text \<open>
  A move of the rectangle by 400 to the right, which takes it across the right border of
  the canvas, and the tree that the rejected move leaves behind.
\<close>

definition shift_right :: Transform where
  "shift_right = Transform (Point (Fin 400) (Fin 0)) (Fin 0) Point_unit"

definition rect_rejected :: Shape where
  "rect_rejected =
     Shape 1 Rectangle Transform_default [] False
       [Point (Fin (- 50)) (Fin 25), Point (Fin 50) (Fin 25),
        Point (Fin 50) (Fin (- 25)), Point (Fin (- 50)) (Fin (- 25))]
       [Point (Fin 670) (Fin 265), Point (Fin 770) (Fin 265),
        Point (Fin 770) (Fin 215), Point (Fin 670) (Fin 215)]"

definition editing :: Controller where
  "editing = \<lparr>canvas = scene_drawn, selectedNode = [0], previewNode = None, isInEdit = True\<rparr>"

definition after_rejection :: Controller where
  "after_rejection =
     \<lparr>canvas = canvas_with [rect_rejected], selectedNode = [0], previewNode = None,
      isInEdit = True\<rparr>"

text \<open>Two rectangles side by side on the canvas, drawn.\<close>

definition left_drawn :: Shape where
  "left_drawn =
     Shape 1 Rectangle (Transform (Point (Fin (- 100)) (Fin 0)) (Fin 0) Point_unit) [] False
       [Point (Fin (- 50)) (Fin 25), Point (Fin 50) (Fin 25),
        Point (Fin 50) (Fin (- 25)), Point (Fin (- 50)) (Fin (- 25))]
       [Point (Fin 170) (Fin 265), Point (Fin 270) (Fin 265),
        Point (Fin 270) (Fin 215), Point (Fin 170) (Fin 215)]"

definition right_drawn :: Shape where
  "right_drawn =
     Shape 2 Rectangle (Transform (Point (Fin 100) (Fin 0)) (Fin 0) Point_unit) [] False
       [Point (Fin (- 50)) (Fin 25), Point (Fin 50) (Fin 25),
        Point (Fin 50) (Fin (- 25)), Point (Fin (- 50)) (Fin (- 25))]
       [Point (Fin 370) (Fin 265), Point (Fin 470) (Fin 265),
        Point (Fin 470) (Fin 215), Point (Fin 370) (Fin 215)]"

text \<open>
  A second rectangle, fresh from its constructor, to be placed where \<open>rect_drawn\<close>
  already is.
\<close>

definition undrawn_rect :: Shape where
  "undrawn_rect = Rectangle_new 2 (Fin 100) (Fin 50) Transform_default"




text \<open>Two segments on one line that overlap, and two that cross.\<close>

definition collinear1 :: Line where
  "collinear1 = Line (Point (Fin 0) (Fin 0)) (Point (Fin 2) (Fin 2))"

definition collinear2 :: Line where
  "collinear2 = Line (Point (Fin 1) (Fin 1)) (Point (Fin 3) (Fin 3))"

definition diagonal1 :: Line where
  "diagonal1 = Line (Point (Fin 0) (Fin 0)) (Point (Fin 10) (Fin 10))"

definition diagonal2 :: Line where
  "diagonal2 = Line (Point (Fin 0) (Fin 10)) (Point (Fin 10) (Fin 0))"

text \<open>
  Two segments on the line \<open>y = 3x\<close> that start at the same point, the short one lying
  within the long one. All coordinates are doubles.
\<close>

definition long_segment :: Line where
  "long_segment =
     Line (Point (Fin (- 1)) (Fin (- 3))) (Point (Fin (3 / 2 ^ 54)) (Fin (9 / 2 ^ 54)))"

definition short_segment :: Line where
  "short_segment = Line (Point (Fin (- 1)) (Fin (- 3))) (Point (Fin 0) (Fin 0))"

text \<open>
  A store with the two shared points \<open>Point.zero\<close> and \<open>Point.unit\<close>, a transform built on
  them, and a transform with points of its own; and the store after the second has been
  added to the first.
\<close>

definition store_before :: Store where
  "store_before =
     \<lparr>point_at = [0 \<mapsto> Point (Fin 0) (Fin 0), 1 \<mapsto> Point (Fin 1) (Fin 1),
                   3 \<mapsto> Point (Fin 10) (Fin 20), 4 \<mapsto> Point (Fin 2) (Fin 3)],
      transform_at = [2 \<mapsto> (0, Fin 350, 1), 5 \<mapsto> (3, Fin 20, 4)],
      next_ref = 6\<rparr>"

definition store_after :: Store where
  "store_after =
     \<lparr>point_at = [0 \<mapsto> Point (Fin 0) (Fin 0), 1 \<mapsto> Point (Fin 1) (Fin 1),
                   3 \<mapsto> Point (Fin 10) (Fin 20), 4 \<mapsto> Point (Fin 2) (Fin 3),
                   6 \<mapsto> Point (Fin 10) (Fin 20), 7 \<mapsto> Point (Fin 2) (Fin 3)],
      transform_at = [2 \<mapsto> (0, Fin 350, 1), 5 \<mapsto> (3, Fin 20, 4), 8 \<mapsto> (6, Fin 370, 7)],
      next_ref = 9\<rparr>"

section \<open>Arithmetic of numbers\<close>

lemma number_neg_neg: "- (- a) = (a::number)"
  by (cases a) simp_all

lemma number_add_commute: "a + b = b + (a::number)"
  by (cases a; cases b) simp_all

lemma number_mul_commute: "a * b = b * (a::number)"
  by (cases a; cases b) simp_all

lemma number_neg_add: "- (a + b) = (- a) + (- b :: number)"
  by (cases a; cases b) simp_all

lemma number_neg_mul_left: "(- a) * b = - (a * (b::number))"
  by (cases a; cases b) simp_all

lemma number_neg_mul_right: "a * (- b) = - (a * (b::number))"
  by (cases a; cases b) simp_all

lemma number_diff_swap: "a - b = - (b - (a::number))"
  by (simp add: minus_number_def number_neg_add number_neg_neg number_add_commute)

text \<open>Negating numerator and denominator does not change whether a quotient is in the unit interval.\<close>

lemma in_unit_div_neg: "in_unit ((- n) / (- d)) = in_unit (n / d)"
  by (cases n; cases d) (simp_all add: in_unit_def)

text \<open>No quotient with denominator zero is in the unit interval: it is an infinity or NaN.\<close>

lemma div_zero_not_in_unit: "\<not> in_unit (n / Fin 0)"
  by (cases n) (simp_all add: in_unit_def)

section \<open>Transform composition\<close>

text \<open>The value that \<open>add\<close> builds.\<close>

lemma add_componentwise:
  "add a b =
     Transform (Point_plus (position a) (position b))
               (rotation a + rotation b)
               (Point_times (scale a) (scale b))"
  by (simp add: add_def Point_plus_def Point_times_def)

text \<open>
  Claim C8. Let \<open>this\<close> and \<open>other\<close> refer to transforms \<open>a\<close> and \<open>b\<close> in a store in
  order. Then \<open>add\<close> returns a reference to a new transform whose position is the vector
  sum of the positions, whose rotation is the sum of the rotations, not normalised (for
  finite rotations \<open>x\<close> and \<open>y\<close> it is exactly \<open>x + y\<close>, whatever its size or sign), and
  whose scale is the component-wise product of the scales. Every object that existed
  before the call has the fields it had: both operands, read after the call, are still
  \<open>a\<close> and \<open>b\<close>. The result and its two points are new objects, so that it shares no
  point with an operand.
\<close>

theorem add_leaves_operands:
  assumes ok: "store_ok st"
      and a: "read_Transform st this = Some a"
      and b: "read_Transform st other = Some b"
  shows "\<exists>r st' p rot s.
     add_in_store st this other = Inr (r, st') \<and>
     read_Transform st' r = Some (add a b) \<and>
     add a b = Transform (Point_plus (position a) (position b)) (rotation a + rotation b)
                 (Point_times (scale a) (scale b)) \<and>
     (\<forall>x y. rotation a = Fin x \<and> rotation b = Fin y \<longrightarrow> rotation (add a b) = Fin (x + y)) \<and>
     unchanged st st' \<and>
     read_Transform st' this = Some a \<and> read_Transform st' other = Some b \<and>
     transform_at st' r = Some (p, rot, s) \<and>
     r \<notin> dom (transform_at st) \<and> p \<notin> dom (point_at st) \<and> s \<notin> dom (point_at st) \<and>
     store_ok st'"
proof -
  from a obtain tp tr ts tpos tsc where
    t: "transform_at st this = Some (tp, tr, ts)" "point_at st tp = Some tpos"
       "point_at st ts = Some tsc" "a = Transform tpos tr tsc"
    by (auto simp: read_Transform_def split: option.splits prod.splits)
  from b obtain op or os opos osc where
    o: "transform_at st other = Some (op, or, os)" "point_at st op = Some opos"
       "point_at st os = Some osc" "b = Transform opos or osc"
    by (auto simp: read_Transform_def split: option.splits prod.splits)
  define n where "n = next_ref st"
  have dp: "x < n" if "point_at st x = Some y" for x y
    using ok that unfolding store_ok_def n_def by auto
  have dt: "x < n" if "transform_at st x = Some y" for x y
    using ok that unfolding store_ok_def n_def by auto
  have fresh: "point_at st n = None" "point_at st (Suc n) = None"
    "transform_at st (Suc (Suc n)) = None"
    using dp[of n] dp[of "Suc n"] dt[of "Suc (Suc n)"]
    by (cases "point_at st n"; cases "point_at st (Suc n)";
        cases "transform_at st (Suc (Suc n))"; auto)+
  have old: "tp < n" "ts < n" "op < n" "os < n" "this < n" "other < n"
    using dp dt t o by blast+
  define st' where "st' = st\<lparr>point_at := (point_at st)
        (n \<mapsto> Point (pt_x tpos + pt_x opos) (pt_y tpos + pt_y opos),
         Suc n \<mapsto> Point (pt_x tsc * pt_x osc) (pt_y tsc * pt_y osc)),
      transform_at := (transform_at st)(Suc (Suc n) \<mapsto> (n, tr + or, Suc n)),
      next_ref := Suc (Suc (Suc n))\<rparr>"
  have run: "add_in_store st this other = Inr (Suc (Suc n), st')"
    unfolding add_in_store_def st'_def
    by (simp add: t o new_Point_def new_Transform_def n_def[symmetric])
  have res: "read_Transform st' (Suc (Suc n)) = Some (add a b)"
    unfolding st'_def read_Transform_def by (simp add: t o add_def)
  have un: "unchanged st st'"
  proof -
    have "point_at st' r = point_at st r" if "r \<in> dom (point_at st)" for r
    proof -
      have "r < n" using that dp by auto
      then show ?thesis unfolding st'_def by simp
    qed
    moreover have "transform_at st' r = transform_at st r" if "r \<in> dom (transform_at st)" for r
    proof -
      have "r < n" using that dt by auto
      then show ?thesis unfolding st'_def by simp
    qed
    ultimately show ?thesis unfolding unchanged_def by blast
  qed
  have ra: "read_Transform st' this = Some a" "read_Transform st' other = Some b"
    unfolding st'_def read_Transform_def using fresh old by (auto simp: t o)
  have ok': "store_ok st'"
  proof -
    have "x < Suc (Suc (Suc n))" if "x \<in> dom (point_at st')" for x
      using that dp[of x] unfolding st'_def by (auto split: if_splits)
    moreover have "x < Suc (Suc (Suc n))" if "x \<in> dom (transform_at st')" for x
      using that dt[of x] unfolding st'_def by (auto split: if_splits)
    ultimately show ?thesis unfolding store_ok_def by (auto simp: st'_def)
  qed
  have fr: "Suc (Suc n) \<notin> dom (transform_at st)" "n \<notin> dom (point_at st)"
    "Suc n \<notin> dom (point_at st)"
    using fresh by (auto simp: domIff)
  have tat: "transform_at st' (Suc (Suc n)) = Some (n, tr + or, Suc n)"
    unfolding st'_def by simp
  have rot: "\<forall>x y. rotation a = Fin x \<and> rotation b = Fin y \<longrightarrow> rotation (add a b) = Fin (x + y)"
    by (simp add: add_def)
  show ?thesis
    using run res add_componentwise[of a b] rot un ra tat fr ok' by blast
qed

text \<open>
  The transform with rotation 20 is added to the one with rotation 350, which is built on
  the shared points: the result is the new object 8 with the new points 6 and 7 and the
  rotation 370, and both operands read as before.
\<close>

theorem add_leaves_operands_witness:
  "store_ok store_before \<and>
   read_Transform store_before 5
     = Some (Transform (Point (Fin 10) (Fin 20)) (Fin 20) (Point (Fin 2) (Fin 3))) \<and>
   read_Transform store_before 2
     = Some (Transform (Point (Fin 0) (Fin 0)) (Fin 350) (Point (Fin 1) (Fin 1))) \<and>
   add_in_store store_before 5 2 = Inr (8, store_after) \<and>
   read_Transform store_after 8
     = Some (Transform (Point (Fin 10) (Fin 20)) (Fin 370) (Point (Fin 2) (Fin 3))) \<and>
   transform_at store_after 8 = Some (6, Fin 370, 7) \<and>
   unchanged store_before store_after \<and>
   read_Transform store_after 5
     = Some (Transform (Point (Fin 10) (Fin 20)) (Fin 20) (Point (Fin 2) (Fin 3))) \<and>
   read_Transform store_after 2
     = Some (Transform (Point (Fin 0) (Fin 0)) (Fin 350) (Point (Fin 1) (Fin 1)))"
proof -
  have ok: "store_ok store_before"
    by (simp add: store_ok_def store_before_def)
  have a: "read_Transform store_before 5
     = Some (Transform (Point (Fin 10) (Fin 20)) (Fin 20) (Point (Fin 2) (Fin 3)))"
    by (simp add: read_Transform_def store_before_def)
  have b: "read_Transform store_before 2
     = Some (Transform (Point (Fin 0) (Fin 0)) (Fin 350) (Point (Fin 1) (Fin 1)))"
    by (simp add: read_Transform_def store_before_def)
  have run: "add_in_store store_before 5 2 = Inr (8, store_after)"
    by (simp add: add_in_store_def store_before_def store_after_def new_Point_def
        new_Transform_def)
  from add_leaves_operands [OF ok a b] run
  have res: "read_Transform store_after 8
               = Some (add (Transform (Point (Fin 10) (Fin 20)) (Fin 20) (Point (Fin 2) (Fin 3)))
                           (Transform (Point (Fin 0) (Fin 0)) (Fin 350) (Point (Fin 1) (Fin 1))))"
    and un: "unchanged store_before store_after"
    and a': "read_Transform store_after 5
     = Some (Transform (Point (Fin 10) (Fin 20)) (Fin 20) (Point (Fin 2) (Fin 3)))"
    and b': "read_Transform store_after 2
     = Some (Transform (Point (Fin 0) (Fin 0)) (Fin 350) (Point (Fin 1) (Fin 1)))"
    by auto
  have res': "read_Transform store_after 8
     = Some (Transform (Point (Fin 10) (Fin 20)) (Fin 370) (Point (Fin 2) (Fin 3)))"
    using res by (simp add: add_def)
  have tat: "transform_at store_after 8 = Some (6, Fin 370, 7)"
    by (simp add: store_after_def)
  show ?thesis using ok a b run res' tat un a' b' by blast
qed

section \<open>Segment intersection\<close>

lemma line_intersects_params:
  "line_intersects l1 l2 = (in_unit (param_s l1 l2) \<and> in_unit (param_t l1 l2))"
  unfolding line_intersects_def param_s_def param_t_def denominator_def cross_def direction_def
    offset_def in_unit_def Let_def
  apply (simp add: number_neg_mul_left)
  apply (simp add: minus_number_def)
  apply (simp add: number_add_commute number_mul_commute)
  done

text \<open>In exact arithmetic two segments with denominator zero never pass the test.\<close>

lemma line_intersects_exact:
  "(line_intersects l1 l2 \<longleftrightarrow> in_unit (param_s l1 l2) \<and> in_unit (param_t l1 l2)) \<and>
   (denominator l1 l2 = Fin 0 \<longrightarrow> \<not> line_intersects l1 l2)"
  by (auto simp: line_intersects_params param_s_def div_zero_not_in_unit)

subsection \<open>On doubles\<close>

lemma round_even_neg: "round_even (- x) = - round_even x"
proof (cases "x = of_int \<lfloor>x\<rfloor>")
  case True
  then obtain k :: int where k: "x = of_int k" by auto
  have "- x = of_int (- k)" using k by simp
  then have "\<lfloor>- x\<rfloor> = - k" by (metis floor_of_int)
  moreover have "\<lfloor>x\<rfloor> = k" using k by simp
  ultimately show ?thesis using k by (simp add: round_even_def Let_def)
next
  case False
  define f where "f = \<lfloor>x\<rfloor>"
  have lo: "of_int f < x" using False f_def
    by (metis of_int_floor_le order_le_less)
  have hi: "x < of_int f + 1" unfolding f_def by linarith
  have nf: "\<lfloor>- x\<rfloor> = - f - 1"
    using lo hi by (intro floor_unique) auto
  show ?thesis
    unfolding round_even_def Let_def nf f_def[symmetric]
    using lo hi by (auto simp: algebra_simps)
qed

lemma fl_neg: "fl (- x) = - fl x"
  by (simp add: fl_def bexp_def Let_def round_even_neg)

lemma fl_zero: "fl 0 = 0"
  by (simp add: fl_def round_even_def Let_def)

lemma rnd_neg: "rnd (- a) = - rnd a"
  by (cases a) (auto simp: Let_def fl_neg max_double_def)

lemma dmul_neg_left: "dmul (- a) b = - dmul a b"
  by (simp add: dmul_def number_neg_mul_left rnd_neg)

lemma dmul_commute: "dmul a b = dmul b a"
  by (simp add: dmul_def number_mul_commute)

lemma dadd_neg_left: "dadd (- a) b = dsub b a"
  by (simp add: dadd_def dsub_def minus_number_def number_add_commute)

lemma ddiv_zero_not_in_unit: "\<not> in_unit (ddiv n (Fin 0))"
  by (cases n) (simp_all add: ddiv_def in_unit_def)

lemma line_intersects_double_params:
  "line_intersects_double l1 l2 = (in_unit (dparam_s l1 l2) \<and> in_unit (dparam_t l1 l2))"
  unfolding line_intersects_double_def dparam_s_def dparam_t_def ddenominator_def dcross_def
    ddirection_def doffset_def in_unit_def Let_def
  apply (simp add: dmul_neg_left dadd_neg_left)
  apply (simp add: dmul_commute)
  done

text \<open>Evaluation of double arithmetic on numerals.\<close>

lemma bexp_up_unfold:
  "bexp_up n x = (if n = 0 then 0 else if x < 2 then 0 else 1 + bexp_up (n - 1) (x / 2))"
  by (cases n) simp_all

lemma bexp_down_unfold:
  "bexp_down n x = (if n = 0 then 0 else if 1 \<le> x then 0 else bexp_down (n - 1) (x * 2) - 1)"
  by (cases n) simp_all

lemmas fl_eval =
  fl_def bexp_def bexp_up_unfold bexp_down_unfold pow2_def round_even_def Let_def max_double_def

lemmas double_eval =
  dadd_def dsub_def dmul_def ddiv_def minus_number_def fl_zero

lemma ddenominator_segments: "ddenominator long_segment short_segment = Fin (1 / 2 ^ 51)"
  unfolding ddenominator_def dcross_def ddirection_def long_segment_def short_segment_def
  apply (simp add: double_eval)
  apply (simp add: fl_eval)
  done

lemma line_intersects_double_segments: "line_intersects_double long_segment short_segment"
  unfolding line_intersects_double_params dparam_s_def dparam_t_def ddenominator_segments
  unfolding dcross_def ddirection_def doffset_def long_segment_def short_segment_def in_unit_def
  apply (simp add: double_eval)
  apply (simp add: fl_eval)
  done

lemma denominator_segments: "denominator long_segment short_segment = Fin 0"
  by (simp add: denominator_def cross_def direction_def long_segment_def short_segment_def
      minus_number_def)

text \<open>
  The two segments start at the same point and their directions are exactly parallel, so
  they lie on one line; the end of the short one lies strictly between the ends of the
  long one, so they overlap; and every coordinate is a double. In exact arithmetic the
  denominator is zero and the test is false. On doubles the differences of the
  coordinates are rounded, the denominator is \<open>2\<close> to the power \<open>-51\<close>, both parameters
  are zero, and the test is true.
\<close>

theorem collinear_overlap_true_on_doubles:
  "point1 long_segment = point1 short_segment \<and>
   denominator long_segment short_segment = Fin 0 \<and>
   pt_x (point1 long_segment) < pt_x (point2 short_segment) \<and>
   pt_x (point2 short_segment) < pt_x (point2 long_segment) \<and>
   list_all (\<lambda>c. rnd c = c)
     [pt_x (point1 long_segment), pt_y (point1 long_segment),
      pt_x (point2 long_segment), pt_y (point2 long_segment),
      pt_x (point2 short_segment), pt_y (point2 short_segment)] \<and>
   ddenominator long_segment short_segment = Fin (1 / 2 ^ 51) \<and>
   line_intersects_double long_segment short_segment \<and>
   \<not> line_intersects long_segment short_segment"
proof (intro conjI)
  show "point1 long_segment = point1 short_segment"
    by (simp add: long_segment_def short_segment_def)
  show "denominator long_segment short_segment = Fin 0"
    by (rule denominator_segments)
  show "pt_x (point1 long_segment) < pt_x (point2 short_segment)"
    by (simp add: long_segment_def short_segment_def)
  show "pt_x (point2 short_segment) < pt_x (point2 long_segment)"
    by (simp add: long_segment_def short_segment_def)
  show "list_all (\<lambda>c. rnd c = c)
     [pt_x (point1 long_segment), pt_y (point1 long_segment),
      pt_x (point2 long_segment), pt_y (point2 long_segment),
      pt_x (point2 short_segment), pt_y (point2 short_segment)]"
    by (simp add: long_segment_def short_segment_def fl_zero) (simp add: fl_eval)
  show "ddenominator long_segment short_segment = Fin (1 / 2 ^ 51)"
    by (rule ddenominator_segments)
  show "line_intersects_double long_segment short_segment"
    by (rule line_intersects_double_segments)
  show "\<not> line_intersects long_segment short_segment"
    using line_intersects_exact[of long_segment short_segment] denominator_segments by blast
qed

text \<open>
  Claim C4, amended. The test computes the two parameters of the cross-product
  parametrization, in double arithmetic, and is true exactly when both computed values lie
  in the unit interval. Whenever the computed denominator is zero the test is false; no
  error is raised, the function being total. The same holds in exact arithmetic, where
  the denominator of parallel segments, and so of collinear ones, is always zero.
\<close>

theorem line_intersects_double_parametrization:
  "(line_intersects_double l1 l2 \<longleftrightarrow> in_unit (dparam_s l1 l2) \<and> in_unit (dparam_t l1 l2)) \<and>
   (ddenominator l1 l2 = Fin 0 \<longrightarrow> \<not> line_intersects_double l1 l2) \<and>
   (line_intersects l1 l2 \<longleftrightarrow> in_unit (param_s l1 l2) \<and> in_unit (param_t l1 l2)) \<and>
   (denominator l1 l2 = Fin 0 \<longrightarrow> \<not> line_intersects l1 l2)"
  using line_intersects_exact[of l1 l2]
  by (auto simp: line_intersects_double_params dparam_s_def ddiv_zero_not_in_unit)

text \<open>
  The segments from (0,0) to (2,2) and from (1,1) to (3,3) lie on one line and overlap;
  their differences are exact in doubles, the denominator is zero in both arithmetics and
  the test is false. The two diagonals of a square cross.
\<close>

theorem line_intersects_double_parametrization_witness:
  "ddenominator collinear1 collinear2 = Fin 0 \<and>
   \<not> line_intersects_double collinear1 collinear2 \<and>
   denominator collinear1 collinear2 = Fin 0 \<and> \<not> line_intersects collinear1 collinear2 \<and>
   line_intersects_double diagonal1 diagonal2 \<and> line_intersects diagonal1 diagonal2"
proof -
  have d: "ddenominator collinear1 collinear2 = Fin 0"
    unfolding ddenominator_def dcross_def ddirection_def collinear1_def collinear2_def
    by (simp add: double_eval) (simp add: fl_eval)
  have e: "denominator collinear1 collinear2 = Fin 0"
    by (simp add: denominator_def cross_def direction_def collinear1_def collinear2_def
        minus_number_def)
  have s: "dparam_s diagonal1 diagonal2 = Fin (1 / 2)" "dparam_t diagonal1 diagonal2 = Fin (1 / 2)"
    unfolding dparam_s_def dparam_t_def ddenominator_def dcross_def ddirection_def doffset_def
      diagonal1_def diagonal2_def
    by (simp add: double_eval, simp add: fl_eval)+
  have x: "param_s diagonal1 diagonal2 = Fin (1 / 2)" "param_t diagonal1 diagonal2 = Fin (1 / 2)"
    by (simp_all add: param_s_def param_t_def denominator_def cross_def direction_def offset_def
        diagonal1_def diagonal2_def minus_number_def)
  have u: "in_unit (Fin (1 / 2))" by (simp add: in_unit_def)
  show ?thesis
    using line_intersects_double_parametrization [of collinear1 collinear2]
          line_intersects_double_parametrization [of diagonal1 diagonal2]
          d e s x u
    by metis
qed

text \<open>
  For finite end points and a denominator other than zero, the test decides whether the
  two segments have a common point.
\<close>

lemma line_intersects_geometric:
  fixes x1 y1 x2 y2 x3 y3 x4 y4 :: real
  assumes "(x2 - x1) * (y4 - y3) - (y2 - y1) * (x4 - x3) \<noteq> 0"
  shows "line_intersects (Line (Point (Fin x1) (Fin y1)) (Point (Fin x2) (Fin y2)))
           (Line (Point (Fin x3) (Fin y3)) (Point (Fin x4) (Fin y4))) \<longleftrightarrow>
         (\<exists>s t. 0 \<le> s \<and> s \<le> 1 \<and> 0 \<le> t \<and> t \<le> 1 \<and>
            x1 + t * (x2 - x1) = x3 + s * (x4 - x3) \<and>
            y1 + t * (y2 - y1) = y3 + s * (y4 - y3))"
proof -
  define a where "a = x2 - x1"
  define b where "b = y2 - y1"
  define c where "c = x4 - x3"
  define e where "e = y4 - y3"
  define wx where "wx = x1 - x3"
  define wy where "wy = y1 - y3"
  define d where "d = - c * b + a * e"
  define sn where "sn = - b * wx + a * wy"
  define tn where "tn = c * wy - e * wx"
  have d0: "d \<noteq> 0"
    using assms unfolding d_def a_def b_def c_def e_def by (simp add: algebra_simps)
  have li: "line_intersects (Line (Point (Fin x1) (Fin y1)) (Point (Fin x2) (Fin y2)))
           (Line (Point (Fin x3) (Fin y3)) (Point (Fin x4) (Fin y4))) \<longleftrightarrow>
           (0 \<le> sn / d \<and> sn / d \<le> 1 \<and> 0 \<le> tn / d \<and> tn / d \<le> 1)"
    using d0 unfolding d_def sn_def tn_def a_def b_def c_def e_def wx_def wy_def
    by (simp add: line_intersects_def minus_number_def Let_def)
  have sol: "x1 + (tn / d) * a = x3 + (sn / d) * c" "y1 + (tn / d) * b = y3 + (sn / d) * e"
    using d0 unfolding d_def sn_def tn_def wx_def wy_def
    by (simp_all add: field_simps)
  have uniq: "s = sn / d \<and> t = tn / d"
    if "x1 + t * a = x3 + s * c" "y1 + t * b = y3 + s * e" for s t
  proof -
    have wx: "wx = s * c - t * a" and wy: "wy = s * e - t * b"
      using that unfolding wx_def wy_def by (simp_all add: algebra_simps)
    have "sn = s * d" "tn = t * d"
      unfolding sn_def tn_def d_def wx wy by (simp_all add: algebra_simps)
    then show ?thesis using d0 by simp
  qed
  show ?thesis
    unfolding li a_def[symmetric] b_def[symmetric] c_def[symmetric] e_def[symmetric]
    using sol uniq by blast
qed

text \<open>The test does not depend on the order of the two segments.\<close>

lemma line_intersects_sym: "line_intersects l1 l2 = line_intersects l2 l1"
proof -
  obtain p1 p2 q1 q2 where l: "l1 = Line p1 p2" "l2 = Line q1 q2"
    by (cases l1; cases l2) auto
  define a where "a = pt_x p2 - pt_x p1"
  define b where "b = pt_y p2 - pt_y p1"
  define c where "c = pt_x q2 - pt_x q1"
  define e where "e = pt_y q2 - pt_y q1"
  define wx where "wx = pt_x p1 - pt_x q1"
  define wy where "wy = pt_y p1 - pt_y q1"
  have w': "pt_x q1 - pt_x p1 = - wx" "pt_y q1 - pt_y p1 = - wy"
    unfolding wx_def wy_def by (rule number_diff_swap)+
  define sn where "sn = - b * wx + a * wy"
  define tn where "tn = c * wy - e * wx"
  define d where "d = - c * b + a * e"
  have sn': "- e * (- wx) + c * (- wy) = - tn"
    unfolding tn_def
    by (simp add: minus_number_def number_neg_add number_neg_neg number_neg_mul_left
        number_neg_mul_right number_add_commute)
  have tn': "a * (- wy) - b * (- wx) = - sn"
    unfolding sn_def
    by (simp add: minus_number_def number_neg_add number_neg_neg number_neg_mul_left
        number_neg_mul_right number_add_commute)
  have d': "- a * e + c * b = - d"
    unfolding d_def
    by (simp add: minus_number_def number_neg_add number_neg_neg number_neg_mul_left
        number_neg_mul_right number_add_commute)
  have 1: "line_intersects l1 l2 = (in_unit (sn / d) \<and> in_unit (tn / d))"
    unfolding l line_intersects_def in_unit_def sn_def tn_def d_def a_def b_def c_def e_def
      wx_def wy_def
    by (simp add: Let_def)
  have 2: "line_intersects l2 l1 = (in_unit ((- tn) / (- d)) \<and> in_unit ((- sn) / (- d)))"
    unfolding sn'[symmetric] tn'[symmetric] d'[symmetric] w'[symmetric]
    unfolding l line_intersects_def in_unit_def a_def b_def c_def e_def
    by (simp add: Let_def)
  show ?thesis unfolding 1 2 in_unit_div_neg by auto
qed

section \<open>Point in polygon\<close>

lemma isPointInside_loop_unfold:
  "isPointInside_loop dps x y i j inside =
     (if i < length dps then
         isPointInside_loop dps x y (Suc i) i
           (if edge_test (dps ! i) (dps ! j) x y then \<not> inside else inside)
      else inside)"
  by (subst isPointInside_loop.simps) (simp add: Let_def edge_test_def)

text \<open>
  The loop from index \<open>i\<close> on, with \<open>j\<close> the predecessor of \<open>i\<close> on the closed loop, folds
  the toggle over the remaining indices.
\<close>

lemma isPointInside_loop_fold:
  "i \<le> length dps \<Longrightarrow> (i < length dps \<longrightarrow> j = pred_index (length dps) i) \<Longrightarrow>
   isPointInside_loop dps x y i j inside = foldl (toggle_step dps x y) inside [i..<length dps]"
proof (induction "length dps - i" arbitrary: i j inside)
  case 0
  then have "\<not> i < length dps" by simp
  then show ?case by (subst isPointInside_loop_unfold) simp
next
  case (Suc k)
  then have lt: "i < length dps" by simp
  have j: "j = pred_index (length dps) i" using Suc.prems lt by simp
  have up: "[i..<length dps] = i # [Suc i..<length dps]"
    using lt by (simp add: upt_conv_Cons)
  have IH: "isPointInside_loop dps x y (Suc i) i b =
              foldl (toggle_step dps x y) b [Suc i..<length dps]" for b
    using Suc.hyps lt by (intro Suc.hyps(1)) (auto simp: pred_index_def)
  show ?case
    apply (subst isPointInside_loop_unfold)
    apply (simp only: lt if_True IH up foldl_Cons)
    apply (simp add: toggle_step_def j)
    done
qed

lemma foldl_toggle_parity:
  "foldl (toggle_step ps x y) b ks =
     (b \<noteq> odd (length (filter (\<lambda>i. edge_test (ps ! i) (ps ! pred_index (length ps) i) x y) ks)))"
  by (induction ks arbitrary: b) (auto simp: toggle_step_def)

text \<open>
  Claim C5. \<open>isPointInside\<close> is the crossing-number test on the draw points as a closed
  loop: it runs through the indices \<open>i\<close> in order, pairs each with its predecessor
  \<open>i - 1\<close> modulo the number of points, toggles a flag that starts as false whenever the
  edge test holds, and returns the flag. So a point is inside exactly when it has an odd
  number of crossed edges.
\<close>

theorem isPointInside_crossing_number:
  "isPointInside this point =
     crossing_number_inside (drawPoints this) (pt_x point) (pt_y point) \<and>
   crossing_number_inside (drawPoints this) (pt_x point) (pt_y point) =
     odd (length (crossed_edges (drawPoints this) (pt_x point) (pt_y point)))"
proof
  show "isPointInside this point =
          crossing_number_inside (drawPoints this) (pt_x point) (pt_y point)"
    unfolding isPointInside_def crossing_number_inside_def
    by (rule isPointInside_loop_fold) (auto simp: pred_index_def)
  show "crossing_number_inside (drawPoints this) (pt_x point) (pt_y point) =
          odd (length (crossed_edges (drawPoints this) (pt_x point) (pt_y point)))"
    unfolding crossing_number_inside_def crossed_edges_def
    by (simp add: foldl_toggle_parity)
qed

lemma isPointInside_empty: "drawPoints s = [] \<Longrightarrow> \<not> isPointInside s pt"
  by (simp add: isPointInside_def isPointInside_loop_unfold)

section \<open>Polygon intersection\<close>

lemma ngonLines_loop_ex: "ngonLines_loop l ms = (\<exists>m\<in>set ms. line_intersects l m)"
  by (induction ms) auto

lemma myLines_loop_ex: "myLines_loop ls ms = (\<exists>l\<in>set ls. \<exists>m\<in>set ms. line_intersects l m)"
  by (induction ls) (auto simp: ngonLines_loop_ex)

lemma isIntersecting_ex:
  "isIntersecting a b =
     (\<exists>l\<in>set (lines_of (drawPoints a)). \<exists>m\<in>set (lines_of (drawPoints b)). line_intersects l m)"
  by (simp add: isIntersecting_def myLines_loop_ex)

lemma lines_of_Nil: "lines_of [] = []"
  by (simp add: lines_of_def)

lemma length_lines_of: "length (lines_of ps) = length ps"
  by (simp add: lines_of_def)

lemma last_lines_of: "ps \<noteq> [] \<Longrightarrow> last (lines_of ps) = Line (last ps) (hd ps)"
proof -
  assume ne: "ps \<noteq> []"
  then obtain n where n: "length ps = Suc n" by (cases ps) auto
  have len: "length (lines_of ps) = Suc n" using n by (simp add: length_lines_of)
  then have "lines_of ps \<noteq> []" by auto
  then have "last (lines_of ps) = lines_of ps ! n"
    using len by (simp add: last_conv_nth)
  also have "\<dots> = Line (ps ! n) (ps ! 0)"
    unfolding lines_of_def n by (subst nth_map) (simp_all del: upt_Suc)
  also have "\<dots> = Line (last ps) (hd ps)"
    using n ne by (simp add: last_conv_nth hd_conv_nth)
  finally show ?thesis .
qed

text \<open>
  Claim C6. Edge intersection of two polygons is symmetric: \<open>isIntersecting a b\<close> and
  \<open>isIntersecting b a\<close> are equal for all shapes, whatever their draw points.
\<close>

theorem isIntersecting_symmetric: "isIntersecting a b = isIntersecting b a"
  unfolding isIntersecting_ex using line_intersects_sym by blast

section \<open>Stability\<close>

lemma parent_loop_all: "parent_loop p pts = (\<forall>pt\<in>set pts. isPointInside p pt)"
  by (induction pts) auto

lemma outside_loop_all: "outside_loop s pts = (\<forall>pt\<in>set pts. \<not> isPointInside s pt)"
  by (induction pts) auto

lemma sibling_loop_all:
  "sibling_loop this sibs =
     (\<forall>s\<in>set sibs. (\<forall>pt\<in>set (drawPoints this). \<not> isPointInside s pt) \<and>
                    (\<forall>pt\<in>set (getPoints s). \<not> isPointInside this pt) \<and>
                    \<not> isIntersecting this s)"
  by (induction sibs) (auto simp: outside_loop_all)

lemma isStable_Some_Inr:
  "shape_type n \<noteq> Canvas \<Longrightarrow>
   isStable (Some p) n =
     Inr (parent_loop p (drawPoints n) \<and>
          sibling_loop n (filter (\<lambda>node. oid node \<noteq> oid n) (children p)))"
  by (simp add: isStable_def)

text \<open>A node other than the canvas that has no parent cannot be checked: the call raises.\<close>

lemma isStable_None: "shape_type n \<noteq> Canvas \<Longrightarrow> isStable None n = Inl TypeError"
  by (simp add: isStable_def)

text \<open>
  Claim C1. For a node other than the canvas, with parent \<open>parent\<close>, \<open>isStable\<close> returns
  true exactly when every draw point of the node is inside the parent and, for every
  other child of the parent, no draw point of the node is inside that sibling, no draw
  point of the sibling is inside the node, and no edge of the node intersects an edge of
  the sibling. For the canvas it returns true, whatever its parent.
\<close>

theorem isStable_characterisation:
  "(shape_type this \<noteq> Canvas \<longrightarrow>
      isStable (Some parent) this =
        Inr ((\<forall>pt\<in>set (drawPoints this). isPointInside parent pt) \<and>
             (\<forall>sibling\<in>set (children parent). oid sibling \<noteq> oid this \<longrightarrow>
                (\<forall>pt\<in>set (drawPoints this). \<not> isPointInside sibling pt) \<and>
                (\<forall>pt\<in>set (drawPoints sibling). \<not> isPointInside this pt) \<and>
                (\<forall>l\<in>set (lines_of (drawPoints this)).
                   \<forall>m\<in>set (lines_of (drawPoints sibling)). \<not> line_intersects l m)))) \<and>
   (shape_type this = Canvas \<longrightarrow> isStable par this = Inr True)"
  by (auto simp: isStable_def parent_loop_all sibling_loop_all getPoints_def isIntersecting_ex)

text \<open>Evaluation of the tests on the scenarios.\<close>

lemmas scenario_defs =
  canvas_with_def canvas_transform_def rect_drawn_def rect_rejected_def left_drawn_def
  right_drawn_def scene_drawn_def Transform_default_def Point_zero_def Point_unit_def

lemmas geometry_eval =
  isPointInside_def isPointInside_loop_unfold edge_test_def minus_number_def
  isStable_def isIntersecting_def lines_of_def line_intersects_def Let_def getPoints_def

lemma left_stable: "isStable (Some (canvas_with [left_drawn, right_drawn])) left_drawn = Inr True"
  by (simp add: scenario_defs geometry_eval)

lemma rejected_unstable: "isStable (Some (canvas_with [rect_rejected])) rect_rejected = Inr False"
  by (simp add: scenario_defs geometry_eval)

text \<open>
  The left one of two rectangles side by side is stable; a rectangle across the border of
  the canvas is not, one of its points being outside the canvas; the canvas is stable.
\<close>

theorem isStable_characterisation_witness:
  "shape_type left_drawn \<noteq> Canvas \<and>
   right_drawn \<in> set (children (canvas_with [left_drawn, right_drawn])) \<and>
   oid right_drawn \<noteq> oid left_drawn \<and>
   isStable (Some (canvas_with [left_drawn, right_drawn])) left_drawn = Inr True \<and>
   list_all (isPointInside (canvas_with [left_drawn, right_drawn])) (drawPoints left_drawn) \<and>
   list_all (\<lambda>pt. \<not> isPointInside right_drawn pt) (drawPoints left_drawn) \<and>
   shape_type rect_rejected \<noteq> Canvas \<and>
   isStable (Some (canvas_with [rect_rejected])) rect_rejected = Inr False \<and>
   \<not> list_all (isPointInside (canvas_with [rect_rejected])) (drawPoints rect_rejected) \<and>
   shape_type scene_drawn = Canvas \<and> isStable None scene_drawn = Inr True"
proof -
  have a: "shape_type left_drawn \<noteq> Canvas" by (simp add: left_drawn_def)
  have b: "right_drawn \<in> set (children (canvas_with [left_drawn, right_drawn]))"
    by (simp add: canvas_with_def)
  have c: "oid right_drawn \<noteq> oid left_drawn" by (simp add: left_drawn_def right_drawn_def)
  have d: "shape_type rect_rejected \<noteq> Canvas" by (simp add: rect_rejected_def)
  have e: "shape_type scene_drawn = Canvas" by (simp add: scene_drawn_def canvas_with_def)
  have f: "\<not> isPointInside (canvas_with [rect_rejected]) (Point (Fin 670) (Fin 265))"
    by (simp add: scenario_defs geometry_eval)
  have g: "Point (Fin 670) (Fin 265) \<in> set (drawPoints rect_rejected)"
    by (simp add: rect_rejected_def)
  note l = isStable_characterisation [of left_drawn "canvas_with [left_drawn, right_drawn]" None]
  note r = isStable_characterisation [of rect_rejected "canvas_with [rect_rejected]" None]
  note s = isStable_characterisation [of scene_drawn scene_drawn None]
  have l1: "isStable (Some (canvas_with [left_drawn, right_drawn])) left_drawn = Inr True"
    by (rule left_stable)
  have l2: "(\<forall>pt\<in>set (drawPoints left_drawn).
               isPointInside (canvas_with [left_drawn, right_drawn]) pt) \<and>
            (\<forall>pt\<in>set (drawPoints left_drawn). \<not> isPointInside right_drawn pt)"
    using l a b c l1 by auto
  have r1: "isStable (Some (canvas_with [rect_rejected])) rect_rejected = Inr False"
    using r d f g by auto
  have s1: "isStable None scene_drawn = Inr True" using s e by simp
  show ?thesis using a b c d e f g l1 l2 r1 s1 unfolding list_all_iff by blast
qed

text \<open>
  Claim C10. A node other than the canvas whose draw points have not been resolved yet,
  so that \<open>drawPoints\<close> is empty, is stable whatever the geometry of its parent and of its
  siblings: there is no point to test against the parent or a sibling, no point of a
  sibling is inside a polygon without points, and there is no edge to intersect.
\<close>

theorem isStable_unresolved_node:
  "shape_type this \<noteq> Canvas \<Longrightarrow> drawPoints this = [] \<Longrightarrow>
   isStable (Some parent) this = Inr True"
  by (simp add: isStable_def sibling_loop_all isPointInside_empty isIntersecting_ex lines_of_Nil)

text \<open>
  A rectangle fresh from its constructor counts as stable on a canvas where a drawn
  rectangle already occupies the place that the same transform would give it.
\<close>

theorem isStable_unresolved_node_witness:
  "shape_type undrawn_rect \<noteq> Canvas \<and> drawPoints undrawn_rect = [] \<and>
   transform undrawn_rect = transform rect_drawn \<and> points undrawn_rect = points rect_drawn \<and>
   isStable (Some (canvas_with [rect_drawn, undrawn_rect])) undrawn_rect = Inr True"
proof -
  have a: "shape_type undrawn_rect \<noteq> Canvas"
    by (simp add: undrawn_rect_def Rectangle_new_def)
  have b: "drawPoints undrawn_rect = []"
    by (simp add: undrawn_rect_def Rectangle_new_def)
  have c: "transform undrawn_rect = transform rect_drawn \<and> points undrawn_rect = points rect_drawn"
    by (simp add: undrawn_rect_def Rectangle_new_def rect_drawn_def Rectangle_points_def Let_def)
  show ?thesis
    using a b c isStable_unresolved_node [OF a b, of "canvas_with [rect_drawn, undrawn_rect]"]
    by simp
qed

section \<open>Resolving the draw points\<close>

lemma parentCenter_or_default_Some [simp]: "parentCenter_or_default (Some c) = c"
  by (simp add: parentCenter_or_default_def)

lemma parentTransform_or_default_Some [simp]: "parentTransform_or_default (Some t) = t"
  by (simp add: parentTransform_or_default_def)

text \<open>When \<open>draw\<close> returns, and what it returns.\<close>

lemma draw_Inr_iff:
  "draw hp pc0 pt0 (Shape i ty tr ch sel pts dps) = Inr s' \<longleftrightarrow>
     (ty = Canvas \<or> hp) \<and> pts \<noteq> [] \<and>
     (\<exists>ch'. draw_children
               (getCenter_of (map (drawPoint_of (parentCenter_or_default pc0)
                                     (parentTransform_or_default pt0) tr) pts))
               (absoluteTransform_of (parentCenter_or_default pc0)
                  (parentTransform_or_default pt0) tr) ch = Inr ch' \<and>
            s' = Shape i ty tr ch' sel pts
                   (map (drawPoint_of (parentCenter_or_default pc0)
                           (parentTransform_or_default pt0) tr) pts))"
  by (auto simp: Let_def split: sum.splits)

lemma draw_children_Inr_iff:
  "draw_children c t (x # xs) = Inr ss' \<longleftrightarrow>
     (\<exists>x' xs'. draw True (Some c) (Some t) x = Inr x' \<and> draw_children c t xs = Inr xs' \<and>
               ss' = x' # xs')"
  by (auto split: sum.splits)

text \<open>A drawing pass changes nothing but the draw points.\<close>

lemma draw_forget:
  "draw hp pc pt s = Inr s' \<Longrightarrow> forget s' = forget s"
  "draw_children c t ss = Inr ss' \<Longrightarrow> map forget ss' = map forget ss"
proof (induction hp pc pt s and c t ss arbitrary: s' and ss' rule: draw_draw_children.induct)
  case (1 has_parent parentCenter0 parentTransform0 i ty tr ch sel pts dps)
  from "1.prems" obtain ch' where
    a: "ty = Canvas \<or> has_parent" and b: "pts \<noteq> []" and
    c: "draw_children
               (getCenter_of (map (drawPoint_of (parentCenter_or_default parentCenter0)
                                     (parentTransform_or_default parentTransform0) tr) pts))
               (absoluteTransform_of (parentCenter_or_default parentCenter0)
                  (parentTransform_or_default parentTransform0) tr) ch = Inr ch'" and
    d: "s' = Shape i ty tr ch' sel pts
                   (map (drawPoint_of (parentCenter_or_default parentCenter0)
                           (parentTransform_or_default parentTransform0) tr) pts)"
    unfolding draw_Inr_iff by blast
  have "map forget ch' = map forget ch"
    using a b by (intro "1.IH"[OF refl refl refl refl _ _ c]) auto
  then show ?case unfolding d by simp
next
  case (2 center absoluteTransform)
  then show ?case by simp
next
  case (3 center absoluteTransform child rest)
  from "3.prems" obtain x' xs' where
    a: "draw True (Some center) (Some absoluteTransform) child = Inr x'" and
    b: "draw_children center absoluteTransform rest = Inr xs'" and c: "ss' = x' # xs'"
    unfolding draw_children_Inr_iff by blast
  show ?case unfolding c using "3.IH"(1)[OF a] "3.IH"(2)[OF a b] by simp
qed

text \<open>After a drawing pass every node has one draw point for each local point.\<close>

lemma draw_lengths:
  "draw hp pc pt s = Inr s' \<Longrightarrow> \<forall>n\<in>set (nodes s'). length (drawPoints n) = length (points n)"
  "draw_children c t ss = Inr ss' \<Longrightarrow>
      \<forall>n\<in>set (concat (map nodes ss')). length (drawPoints n) = length (points n)"
proof (induction hp pc pt s and c t ss arbitrary: s' and ss' rule: draw_draw_children.induct)
  case (1 has_parent parentCenter0 parentTransform0 i ty tr ch sel pts dps)
  from "1.prems" obtain ch' where
    a: "ty = Canvas \<or> has_parent" and b: "pts \<noteq> []" and
    c: "draw_children
               (getCenter_of (map (drawPoint_of (parentCenter_or_default parentCenter0)
                                     (parentTransform_or_default parentTransform0) tr) pts))
               (absoluteTransform_of (parentCenter_or_default parentCenter0)
                  (parentTransform_or_default parentTransform0) tr) ch = Inr ch'" and
    d: "s' = Shape i ty tr ch' sel pts
                   (map (drawPoint_of (parentCenter_or_default parentCenter0)
                           (parentTransform_or_default parentTransform0) tr) pts)"
    unfolding draw_Inr_iff by blast
  have "\<forall>n\<in>set (concat (map nodes ch')). length (drawPoints n) = length (points n)"
    using a b by (intro "1.IH"[OF refl refl refl refl _ _ c]) auto
  then show ?case unfolding d by simp
next
  case (2 center absoluteTransform)
  then show ?case by simp
next
  case (3 center absoluteTransform child rest)
  from "3.prems" obtain x' xs' where
    a: "draw True (Some center) (Some absoluteTransform) child = Inr x'" and
    b: "draw_children center absoluteTransform rest = Inr xs'" and c: "ss' = x' # xs'"
    unfolding draw_children_Inr_iff by blast
  show ?case unfolding c using "3.IH"(1)[OF a] "3.IH"(2)[OF a b] by auto
qed

text \<open>
  A drawing pass returns for every tree whose nodes all have local points, started at the
  canvas or at a node with a parent.
\<close>

lemma draw_succeeds:
  "nonempty_points s \<Longrightarrow> shape_type s = Canvas \<or> hp \<Longrightarrow> \<exists>s'. draw hp pc pt s = Inr s'"
  "list_all nonempty_points ss \<Longrightarrow> \<exists>ss'. draw_children c t ss = Inr ss'"
proof (induction hp pc pt s and c t ss rule: draw_draw_children.induct)
  case (1 has_parent parentCenter0 parentTransform0 i ty tr ch sel pts dps)
  have a: "\<not> (ty \<noteq> Canvas \<and> \<not> has_parent)" using "1.prems" by auto
  have b: "map f pts \<noteq> []" for f :: "Point \<Rightarrow> Point" using "1.prems" by simp
  have "list_all nonempty_points ch" using "1.prems" by simp
  from "1.IH"[OF refl refl refl refl a b this]
  show ?case unfolding draw_Inr_iff using a b by auto
next
  case (2 center absoluteTransform)
  show ?case by simp
next
  case (3 center absoluteTransform child rest)
  obtain child' where c: "draw True (Some center) (Some absoluteTransform) child = Inr child'"
    using "3.IH"(1) "3.prems" by auto
  obtain rest' where "draw_children center absoluteTransform rest = Inr rest'"
    using "3.IH"(2)[OF c] "3.prems" by auto
  then show ?case unfolding draw_children_Inr_iff using c by simp
qed








lemma rotate_about_finite:
  "rotate_about (Point (Fin cx) (Fin cy)) (Fin a) (Point (Fin x) (Fin y)) =
     Point (Fin (cx + (cos (a * pi / 180) * (x - cx) + sin (a * pi / 180) * (y - cy))))
           (Fin (cy + (cos (a * pi / 180) * (y - cy) - sin (a * pi / 180) * (x - cx))))"
  by (simp add: rotate_about_def Math_PI_def Let_def minus_number_def)

lemma rotate_about_distance:
  assumes "rotate_about (Point (Fin cx) (Fin cy)) (Fin a) (Point (Fin x) (Fin y))
             = Point (Fin x') (Fin y')"
  shows "(x' - cx)\<^sup>2 + (y' - cy)\<^sup>2 = (x - cx)\<^sup>2 + (y - cy)\<^sup>2"
proof -
  define c where "c = cos (a * pi / 180)"
  define s where "s = sin (a * pi / 180)"
  have cs: "c\<^sup>2 + s\<^sup>2 = 1" unfolding c_def s_def by simp
  have x': "x' - cx = c * (x - cx) + s * (y - cy)" and y': "y' - cy = c * (y - cy) - s * (x - cx)"
    using assms unfolding rotate_about_finite c_def s_def by simp_all
  have "(x' - cx)\<^sup>2 + (y' - cy)\<^sup>2 = (c\<^sup>2 + s\<^sup>2) * ((x - cx)\<^sup>2 + (y - cy)\<^sup>2)"
    unfolding x' y' by (simp add: power2_eq_square algebra_simps)
  then show ?thesis using cs by simp
qed

lemma rotate_about_inverse:
  "rotate_about (Point (Fin cx) (Fin cy)) (Fin (- a))
     (rotate_about (Point (Fin cx) (Fin cy)) (Fin a) (Point (Fin x) (Fin y)))
   = Point (Fin x) (Fin y)"
proof -
  define c where "c = cos (a * pi / 180)"
  define s where "s = sin (a * pi / 180)"
  have cs: "c * c + s * s = 1"
    unfolding c_def s_def using sin_cos_squared_add3[of "a * pi / 180"] by simp
  have m: "cos (- a * pi / 180) = c" "sin (- a * pi / 180) = - s"
    unfolding c_def s_def by simp_all
  have 1: "c * (c * (x - cx) + s * (y - cy)) + - s * (c * (y - cy) - s * (x - cx)) = x - cx"
  proof -
    have "c * (c * (x - cx) + s * (y - cy)) + - s * (c * (y - cy) - s * (x - cx))
            = (c * c + s * s) * (x - cx)"
      by (simp add: algebra_simps)
    then show ?thesis using cs by simp
  qed
  have 2: "c * (c * (y - cy) - s * (x - cx)) - - s * (c * (x - cx) + s * (y - cy)) = y - cy"
  proof -
    have "c * (c * (y - cy) - s * (x - cx)) - - s * (c * (x - cx) + s * (y - cy))
            = (c * c + s * s) * (y - cy)"
      by (simp add: algebra_simps)
    then show ?thesis using cs by simp
  qed
  show ?thesis
    unfolding rotate_about_finite m c_def[symmetric] s_def[symmetric]
    using 1 2 by simp
qed

lemma rotate_about_quarter:
  "rotate_about (Point (Fin cx) (Fin cy)) (Fin 90) (Point (Fin (cx + 1)) (Fin cy))
     = Point (Fin cx) (Fin (cy - 1))"
  by (simp add: rotate_about_finite)




text \<open>Evaluation of drawing passes on the scenarios.\<close>

lemma rotateAround_zero:
  "rotateAround (Point (Fin a) (Fin b)) (Point (Fin c) (Fin d)) (Fin 0) = Point (Fin a) (Fin b)"
  by (simp add: rotateAround_def Math_PI_def Let_def minus_number_def)

lemma rotateAround_quarter:
  "rotateAround (Point (Fin a) (Fin b)) (Point (Fin c) (Fin d)) (Fin 90)
     = Point (Fin (b - d + c)) (Fin (- (a - c) + d))"
  by (simp add: rotateAround_def Math_PI_def Let_def minus_number_def)

lemma rotateAround_half:
  "rotateAround (Point (Fin a) (Fin b)) (Point (Fin c) (Fin d)) (Fin 180)
     = Point (Fin (- (a - c) + c)) (Fin (- (b - d) + d))"
  by (simp add: rotateAround_def Math_PI_def Let_def minus_number_def)

lemmas draw_eval =
  render_def addChild_def Canvas_new_def Rectangle_new_def Triangle_new_def
  Rectangle_points_def drawPoint_of_def absoluteTransform_of_def rotateAround_zero
  rotateAround_quarter rotateAround_half getCenter_of_def Let_def

lemma render_scene: "render scene = Inr scene_drawn"
  by (simp add: scene_def scene_canvas_def scene_rect_def scenario_defs draw_eval)



text \<open>
  Claim C7. On the canvas of 640 by 480 with its transform at (320,240), a rectangle of
  100 by 50 added with position (0,0), rotation 0 and scale 1 is drawn, in a pass from
  the canvas down, with its four corners at (270,265), (370,265), (370,215) and (270,215).
  All four are inside the canvas polygon and within its bounds, and the rectangle is stable.
\<close>

theorem legal_child_scenario:
  "render scene = Inr scene_drawn \<and>
   children scene_drawn = [rect_drawn] \<and>
   forget rect_drawn = forget scene_rect \<and>
   drawPoints rect_drawn =
     [Point (Fin 270) (Fin 265), Point (Fin 370) (Fin 265),
      Point (Fin 370) (Fin 215), Point (Fin 270) (Fin 215)] \<and>
   list_all (isPointInside scene_drawn) (drawPoints rect_drawn) \<and>
   list_all (\<lambda>p. Fin 0 \<le> pt_x p \<and> pt_x p \<le> Fin 640 \<and> Fin 0 \<le> pt_y p \<and> pt_y p \<le> Fin 480)
     (drawPoints rect_drawn) \<and>
   isStable (Some scene_drawn) rect_drawn = Inr True"
proof (intro conjI)
  show "render scene = Inr scene_drawn" by (rule render_scene)
  show "children scene_drawn = [rect_drawn]" by (simp add: scene_drawn_def canvas_with_def)
  show "forget rect_drawn = forget scene_rect"
    by (simp add: rect_drawn_def scene_rect_def Rectangle_new_def Rectangle_points_def Let_def)
  show "drawPoints rect_drawn =
     [Point (Fin 270) (Fin 265), Point (Fin 370) (Fin 265),
      Point (Fin 370) (Fin 215), Point (Fin 270) (Fin 215)]"
    by (simp add: rect_drawn_def)
  show "list_all (isPointInside scene_drawn) (drawPoints rect_drawn)"
    by (simp add: scenario_defs geometry_eval)
  show "list_all (\<lambda>p. Fin 0 \<le> pt_x p \<and> pt_x p \<le> Fin 640 \<and> Fin 0 \<le> pt_y p \<and> pt_y p \<le> Fin 480)
     (drawPoints rect_drawn)"
    by (simp add: rect_drawn_def)
  show "isStable (Some scene_drawn) rect_drawn = Inr True"
    by (simp add: scenario_defs geometry_eval)
qed

section \<open>The lengths of the point lists\<close>

lemma length_Circle_loop: "length (Circle_loop radius rotationAngle angle n) = n"
  by (induction n arbitrary: angle) simp_all

lemma points_nodes_forget: "map points (nodes (forget s)) = map points (nodes s)"
  by (induction s) (simp add: map_concat comp_def cong: map_cong)

lemma draw_points_unchanged:
  "draw hp pc pt s = Inr s' \<Longrightarrow> map points (nodes s') = map points (nodes s)"
  using draw_forget(1)[of hp pc pt s s'] points_nodes_forget[of s] points_nodes_forget[of s']
  by simp

text \<open>
  A rectangle fresh from its constructor has four local points and no draw point: the two
  lists differ in length, and the list of draw points is shorter than three.
\<close>

theorem fresh_shape_has_no_drawPoints:
  "length (drawPoints scene_rect) \<noteq> length (points scene_rect) \<and>
   \<not> 3 \<le> length (drawPoints scene_rect)"
  by (simp add: scene_rect_def Rectangle_new_def Rectangle_points_def Let_def)

text \<open>
  Claim C9, amended. Every constructor gives a shape with at least three local points
  (four for a rectangle and for the canvas, 100 for a circle, three for a triangle) and
  with no draw points. A drawing pass leaves the local points of every node as they are
  and gives every node it reaches as many draw points as it has local points. A point
  list is read as a closed polygon: it has as many edges as points, the last edge leading
  from the last point back to the first.
\<close>

theorem drawPoints_length_after_draw:
  "(length (points (Rectangle_new i w h tr)) = 4 \<and> drawPoints (Rectangle_new i w h tr) = []) \<and>
   (length (points (Canvas_new i w h tr)) = 4 \<and> drawPoints (Canvas_new i w h tr) = []) \<and>
   (length (points (Circle_new i r tr)) = 100 \<and> drawPoints (Circle_new i r tr) = []) \<and>
   (length (points (Triangle_new i p1 p2 p3 tr)) = 3 \<and>
      drawPoints (Triangle_new i p1 p2 p3 tr) = []) \<and>
   (draw hp pc pt s = Inr s' \<longrightarrow>
      (\<forall>n\<in>set (nodes s'). length (drawPoints n) = length (points n)) \<and>
      map points (nodes s') = map points (nodes s)) \<and>
   length (lines_of ps) = length ps \<and>
   (ps \<noteq> [] \<longrightarrow> last (lines_of ps) = Line (last ps) (hd ps))"
proof -
  have "length (points (Circle_new i r tr)) = 100"
    by (simp add: Circle_new_def Let_def length_Circle_loop pointsAmount_def)
  moreover have "drawPoints (Circle_new i r tr) = []"
    by (simp add: Circle_new_def Let_def)
  moreover have "draw hp pc pt s = Inr s' \<longrightarrow>
      (\<forall>n\<in>set (nodes s'). length (drawPoints n) = length (points n)) \<and>
      map points (nodes s') = map points (nodes s)"
    using draw_lengths(1)[of hp pc pt s s'] draw_points_unchanged[of hp pc pt s s'] by blast
  ultimately show ?thesis
    by (simp add: Rectangle_new_def Canvas_new_def Triangle_new_def Rectangle_points_def
        Let_def length_lines_of last_lines_of)
qed

text \<open>
  After the drawing pass over the canvas with one rectangle both nodes have four draw
  points, and the fourth edge of the rectangle leads from its last corner to its first.
\<close>

theorem drawPoints_length_after_draw_witness:
  "render scene = Inr scene_drawn \<and>
   list_all (\<lambda>n. length (drawPoints n) = 4 \<and> length (points n) = 4) (nodes scene_drawn) \<and>
   map points (nodes scene_drawn) = map points (nodes scene) \<and>
   drawPoints rect_drawn \<noteq> [] \<and>
   last (lines_of (drawPoints rect_drawn))
     = Line (Point (Fin 270) (Fin 215)) (Point (Fin 270) (Fin 265))"
proof -
  note t = drawPoints_length_after_draw
    [where hp = False and pc = "Some Point_zero" and pt = "Some Transform_default"
       and s = scene and s' = scene_drawn and ps = "drawPoints rect_drawn"]
  have r: "draw False (Some Point_zero) (Some Transform_default) scene = Inr scene_drawn"
    using render_scene by (simp add: render_def)
  have ne: "drawPoints rect_drawn \<noteq> []" by (simp add: rect_drawn_def)
  have p4: "\<forall>n\<in>set (nodes scene_drawn). length (points n) = 4"
    by (simp add: scenario_defs)
  have a: "\<forall>n\<in>set (nodes scene_drawn). length (drawPoints n) = length (points n)"
    using t r by blast
  have b: "map points (nodes scene_drawn) = map points (nodes scene)"
    using t r by blast
  have "last (lines_of (drawPoints rect_drawn))
          = Line (last (drawPoints rect_drawn)) (hd (drawPoints rect_drawn))"
    using t ne by blast
  then have c: "last (lines_of (drawPoints rect_drawn))
     = Line (Point (Fin 270) (Fin 215)) (Point (Fin 270) (Fin 265))"
    by (simp add: rect_drawn_def)
  show ?thesis using render_scene ne p4 a b c unfolding list_all_iff by auto
qed

section \<open>Paths into the tree\<close>

lemma forget_sel [simp]:
  "oid (forget s) = oid s" "shape_type (forget s) = shape_type s"
  "transform (forget s) = transform s" "children (forget s) = map forget (children s)"
  "selected (forget s) = selected s" "points (forget s) = points s" "drawPoints (forget s) = []"
  by (cases s; simp)+

lemma forget_eq_sel:
  "forget a = forget b \<Longrightarrow>
     oid a = oid b \<and> shape_type a = shape_type b \<and> transform a = transform b \<and>
     selected a = selected b \<and> points a = points b \<and> length (children a) = length (children b)"
  by (cases a; cases b) (auto dest: map_eq_imp_length_eq)

lemma get_node_forget: "get_node p (forget s) = map_option forget (get_node p s)"
  by (induction p arbitrary: s) auto

lemma forget_update_node:
  "(\<And>x. forget (f x) = g (forget x)) \<Longrightarrow>
   forget (update_node p f s) = update_node p g (forget s)"
proof (induction p arbitrary: s)
  case Nil
  then show ?case by simp
next
  case (Cons k ks)
  show ?case
    by (cases s) (simp add: Cons map_update)
qed

lemma assign_transform_sel [simp]:
  "oid (assign_transform t s) = oid s" "shape_type (assign_transform t s) = shape_type s"
  "transform (assign_transform t s) = t" "children (assign_transform t s) = children s"
  "selected (assign_transform t s) = selected s" "points (assign_transform t s) = points s"
  "drawPoints (assign_transform t s) = drawPoints s"
  by (simp_all add: assign_transform_def)

lemma forget_assign_transform: "forget (assign_transform t x) = assign_transform t (forget x)"
  by (cases x) (simp add: assign_transform_def)

lemma update_node_twice:
  "update_node p f (update_node p g s) = update_node p (\<lambda>x. f (g x)) s"
  by (induction p arbitrary: s) auto

lemma update_node_same:
  "get_node p s = Some n \<Longrightarrow> f n = n \<Longrightarrow> update_node p f s = s"
proof (induction p arbitrary: s)
  case Nil
  then show ?case by simp
next
  case (Cons k ks)
  then show ?case by (cases s) (auto split: if_splits)
qed

lemma get_node_update:
  "get_node p s = Some n \<Longrightarrow> get_node p (update_node p f s) = Some (f n)"
  by (induction p arbitrary: s) (auto split: if_splits)

lemma get_node_butlast:
  "get_node p s = Some n \<Longrightarrow> p \<noteq> [] \<Longrightarrow> \<exists>q. get_node (butlast p) s = Some q"
  by (induction p arbitrary: s) (auto split: if_splits)

lemma nonempty_points_assign: "nonempty_points (assign_transform t x) = nonempty_points x"
  by (cases x) (simp add: assign_transform_def)

lemma nonempty_points_update:
  "(\<And>x. nonempty_points (f x) = nonempty_points x) \<Longrightarrow>
   nonempty_points (update_node p f s) = nonempty_points s"
proof (induction p arbitrary: s)
  case Nil
  then show ?case by simp
next
  case (Cons k ks)
  have "list_all nonempty_points ((children s)[k := update_node ks f (children s ! k)]) =
        list_all nonempty_points (children s)" if "k < length (children s)"
    using that Cons.IH[OF Cons.prems, of "children s ! k"]
    by (metis list_update_id list_all_length length_list_update nth_list_update)
  then show ?case by (cases s) auto
qed

lemma shape_type_update:
  "(\<And>x. shape_type (f x) = shape_type x) \<Longrightarrow> shape_type (update_node p f s) = shape_type s"
  by (cases p) auto

section \<open>Moving the selected node\<close>

lemma render_shift_right:
  "render (update_node [0] (assign_transform (add Transform_default shift_right)) scene_drawn)
     = Inr (canvas_with [assign_transform (add Transform_default shift_right) rect_rejected])"
  by (simp add: shift_right_def add_def assign_transform_def scenario_defs draw_eval)

lemma translate_editing: "translate editing shift_right = Inr (False, after_rejection)"
proof -
  have g: "get_node [0] scene_drawn = Some rect_drawn"
    by (simp add: scene_drawn_def canvas_with_def)
  have ty: "shape_type rect_drawn \<noteq> Canvas" and tr: "transform rect_drawn = Transform_default"
    by (simp_all add: rect_drawn_def)
  let ?moved = "assign_transform (add Transform_default shift_right) rect_rejected"
  have g2: "get_node [0] (canvas_with [?moved]) = Some ?moved"
    by (simp add: canvas_with_def)
  have p2: "parent_of [0] (canvas_with [?moved]) = Some (canvas_with [?moved])"
    by (simp add: parent_of_def)
  have st: "isStable (Some (canvas_with [?moved])) ?moved = Inr False"
    by (simp add: shift_right_def add_def assign_transform_def scenario_defs geometry_eval)
  have restored: "update_node [0] (assign_transform Transform_default) (canvas_with [?moved])
                = canvas_with [rect_rejected]"
    by (simp add: canvas_with_def assign_transform_def rect_rejected_def)
  show ?thesis
    unfolding translate_def
    by (simp add: editing_def after_rejection_def g ty tr render_shift_right g2 p2 st restored
        del: get_node.simps update_node.simps)
qed

text \<open>
  Claim C3. Let the selected node \<open>n\<close> be another node than the canvas. If the canvas is
  the root and every node has local points, \<open>translate\<close> returns. Whenever it returns, it
  has assigned the composed transform, drawn the whole tree and checked the stability of
  the selected node in the drawn tree, and it returns what that check gave. If the node is
  stable, the controller keeps the drawn tree with the new transform and leaves the
  editing mode. If it is not, the prior transform is assigned again to the node in the
  drawn tree: the selected node has exactly its prior transform, and the state is the one
  before the call. The state is everything but the cache of draw points, which section 3
  of the specification keeps out of it; the draw points are those of the pass for the
  rejected transform.
\<close>

theorem translate_restores_state:
  assumes sel: "get_node (selectedNode c) (canvas c) = Some n"
      and nc: "shape_type n \<noteq> Canvas"
  shows
    "(shape_type (canvas c) = Canvas \<and> nonempty_points (canvas c) \<longrightarrow>
        (\<exists>ok c'. translate c t = Inr (ok, c'))) \<and>
     (\<forall>ok c'. translate c t = Inr (ok, c') \<longrightarrow>
        (\<exists>canvas2 n2 p2.
           render (update_node (selectedNode c) (assign_transform (add (transform n) t)) (canvas c))
             = Inr canvas2 \<and>
           get_node (selectedNode c) canvas2 = Some n2 \<and>
           parent_of (selectedNode c) canvas2 = Some p2 \<and>
           transform n2 = add (transform n) t \<and>
           isStable (Some p2) n2 = Inr ok \<and>
           (ok \<longrightarrow> c' = c\<lparr>canvas := canvas2, isInEdit := False\<rparr>) \<and>
           (\<not> ok \<longrightarrow>
              c' = c\<lparr>canvas := update_node (selectedNode c) (assign_transform (transform n))
                                  canvas2\<rparr> \<and>
              get_node (selectedNode c) (canvas c') = Some (assign_transform (transform n) n2) \<and>
              c'\<lparr>canvas := forget (canvas c')\<rparr> = c\<lparr>canvas := forget (canvas c)\<rparr>)))"
proof -
  define path where "path = selectedNode c"
  define canvas1 where
    "canvas1 = update_node path (assign_transform (add (transform n) t)) (canvas c)"
  have g1: "get_node path canvas1 = Some (assign_transform (add (transform n) t) n)"
    unfolding canvas1_def using sel unfolding path_def by (rule get_node_update)
  have returns: "\<exists>ok c'. translate c t = Inr (ok, c')"
    if root: "shape_type (canvas c) = Canvas" and ne: "nonempty_points (canvas c)"
  proof -
    have path_ne: "path \<noteq> []"
      using sel nc root unfolding path_def by (cases "selectedNode c") auto
    have ty1: "shape_type canvas1 = Canvas"
      unfolding canvas1_def using root by (simp add: shape_type_update)
    have ne1: "nonempty_points canvas1"
      unfolding canvas1_def using ne by (simp add: nonempty_points_update nonempty_points_assign)
    obtain canvas2 where r: "render canvas1 = Inr canvas2"
      unfolding render_def using draw_succeeds(1)[OF ne1, of False] ty1 by blast
    have fg: "forget canvas2 = forget canvas1"
      using r unfolding render_def by (rule draw_forget(1))
    have "map_option forget (get_node path canvas2) = map_option forget (get_node path canvas1)"
      using fg by (metis get_node_forget)
    then obtain n2 where g2: "get_node path canvas2 = Some n2"
      and fn2: "forget n2 = forget (assign_transform (add (transform n) t) n)"
      using g1 by auto
    have ty2: "shape_type n2 \<noteq> Canvas"
      using forget_eq_sel[OF fn2] nc by simp
    obtain p2 where p2: "parent_of path canvas2 = Some p2"
      using get_node_butlast[OF g2 path_ne] path_ne by (auto simp: parent_of_def)
    show ?thesis
      unfolding translate_def using sel nc r g2 p2 isStable_Some_Inr[OF ty2, of p2]
      by (auto simp: path_def[symmetric] canvas1_def[symmetric] Let_def)
  qed
  have outcome: "\<exists>canvas2 n2 p2.
           render canvas1 = Inr canvas2 \<and>
           get_node path canvas2 = Some n2 \<and>
           parent_of path canvas2 = Some p2 \<and>
           transform n2 = add (transform n) t \<and>
           isStable (Some p2) n2 = Inr ok \<and>
           (ok \<longrightarrow> c' = c\<lparr>canvas := canvas2, isInEdit := False\<rparr>) \<and>
           (\<not> ok \<longrightarrow>
              c' = c\<lparr>canvas := update_node path (assign_transform (transform n)) canvas2\<rparr> \<and>
              get_node path (canvas c') = Some (assign_transform (transform n) n2) \<and>
              c'\<lparr>canvas := forget (canvas c')\<rparr> = c\<lparr>canvas := forget (canvas c)\<rparr>)"
    if tr: "translate c t = Inr (ok, c')" for ok c'
  proof -
    from tr obtain canvas2 where r: "render canvas1 = Inr canvas2"
      unfolding translate_def using sel nc
      by (auto simp: path_def[symmetric] canvas1_def[symmetric] Let_def split: sum.splits)
    from tr r obtain n2 where g2: "get_node path canvas2 = Some n2"
      unfolding translate_def using sel nc
      by (auto simp: path_def[symmetric] canvas1_def[symmetric] Let_def split: option.splits)
    have fg: "forget canvas2 = forget canvas1"
      using r unfolding render_def by (rule draw_forget(1))
    have "map_option forget (get_node path canvas2) = map_option forget (get_node path canvas1)"
      using fg by (metis get_node_forget)
    then have fn2: "forget n2 = forget (assign_transform (add (transform n) t) n)"
      using g1 g2 by auto
    have tr2: "transform n2 = add (transform n) t" and ty2: "shape_type n2 \<noteq> Canvas"
      using forget_eq_sel[OF fn2] nc by simp_all
    have st0: "isStable (parent_of path canvas2) n2 = Inr ok"
      and c': "c' = (if ok then c\<lparr>canvas := canvas2, isInEdit := False\<rparr>
                    else c\<lparr>canvas := update_node path (assign_transform (transform n)) canvas2\<rparr>)"
      using tr r g2 unfolding translate_def using sel nc
      by (auto simp: path_def[symmetric] canvas1_def[symmetric] Let_def
          split: sum.splits if_splits)
    obtain p2 where p2: "parent_of path canvas2 = Some p2"
      using st0 ty2 by (cases "parent_of path canvas2") (auto simp: isStable_def)
    define canvas3 where "canvas3 = update_node path (assign_transform (transform n)) canvas2"
    have g3: "get_node path canvas3 = Some (assign_transform (transform n) n2)"
      unfolding canvas3_def using g2 by (rule get_node_update)
    have "forget canvas3 = update_node path (assign_transform (transform n)) (forget canvas2)"
      unfolding canvas3_def by (rule forget_update_node) (rule forget_assign_transform)
    also have "\<dots> = update_node path (assign_transform (transform n))
                      (update_node path (assign_transform (add (transform n) t)) (forget (canvas c)))"
      unfolding fg canvas1_def
      by (subst forget_update_node[where g = "assign_transform (add (transform n) t)"])
        (simp_all add: forget_assign_transform)
    also have "\<dots> = update_node path (\<lambda>x. assign_transform (transform n)
                         (assign_transform (add (transform n) t) x)) (forget (canvas c))"
      by (rule update_node_twice)
    also have "\<dots> = forget (canvas c)"
    proof (rule update_node_same)
      show "get_node path (forget (canvas c)) = Some (forget n)"
        using sel by (simp add: get_node_forget path_def)
      show "assign_transform (transform n) (assign_transform (add (transform n) t) (forget n))
              = forget n"
        by (cases n) (simp add: assign_transform_def)
    qed
    finally have f3: "forget canvas3 = forget (canvas c)" .
    show ?thesis
      apply (rule exI[of _ canvas2], rule exI[of _ n2], rule exI[of _ p2])
      using r g2 p2 tr2 st0 c' g3 f3
      by (auto simp: canvas3_def[symmetric])
  qed
  show ?thesis
    using returns outcome unfolding path_def canvas1_def by blast
qed

text \<open>
  The rectangle has been drawn at its place, and a move by 400 to the right takes it
  across the border of the canvas. The call returns false; the rectangle has its prior
  transform, and with the cache of draw points left out the controller is the one before
  the call. The draw points of the rectangle are those of the rejected place.
\<close>

theorem translate_restores_state_witness:
  "get_node (selectedNode editing) (canvas editing) = Some rect_drawn \<and>
   shape_type rect_drawn \<noteq> Canvas \<and>
   shape_type (canvas editing) = Canvas \<and> nonempty_points (canvas editing) \<and>
   translate editing shift_right = Inr (False, after_rejection) \<and>
   get_node (selectedNode editing) (canvas after_rejection) = Some rect_rejected \<and>
   transform rect_rejected = transform rect_drawn \<and>
   after_rejection\<lparr>canvas := forget (canvas after_rejection)\<rparr>
     = editing\<lparr>canvas := forget (canvas editing)\<rparr> \<and>
   drawPoints rect_drawn =
     [Point (Fin 270) (Fin 265), Point (Fin 370) (Fin 265),
      Point (Fin 370) (Fin 215), Point (Fin 270) (Fin 215)] \<and>
   drawPoints rect_rejected =
     [Point (Fin 670) (Fin 265), Point (Fin 770) (Fin 265),
      Point (Fin 770) (Fin 215), Point (Fin 670) (Fin 215)]"
proof -
  have a: "get_node (selectedNode editing) (canvas editing) = Some rect_drawn"
    by (simp add: editing_def scene_drawn_def canvas_with_def)
  have b: "shape_type rect_drawn \<noteq> Canvas" by (simp add: rect_drawn_def)
  have c: "shape_type (canvas editing) = Canvas"
    by (simp add: editing_def scene_drawn_def canvas_with_def)
  have d: "nonempty_points (canvas editing)"
    by (simp add: editing_def scene_drawn_def canvas_with_def rect_drawn_def)
  from translate_restores_state [OF a b, of shift_right] translate_editing
  have e: "after_rejection\<lparr>canvas := forget (canvas after_rejection)\<rparr>
             = editing\<lparr>canvas := forget (canvas editing)\<rparr>"
    by blast
  have rest:
    "get_node (selectedNode editing) (canvas after_rejection) = Some rect_rejected"
    "transform rect_rejected = transform rect_drawn"
    "drawPoints rect_drawn =
       [Point (Fin 270) (Fin 265), Point (Fin 370) (Fin 265),
        Point (Fin 370) (Fin 215), Point (Fin 270) (Fin 215)]"
    "drawPoints rect_rejected =
       [Point (Fin 670) (Fin 265), Point (Fin 770) (Fin 265),
        Point (Fin 770) (Fin 215), Point (Fin 670) (Fin 215)]"
    by (simp_all add: editing_def after_rejection_def canvas_with_def rect_drawn_def
        rect_rejected_def)
  show ?thesis using a b c d translate_editing e rest by blast
qed

end
